theory Spec2Isabelle
  imports Complex_Main "HOL-Library.Char_ord" "HOL-Library.List_Lexorder" "HOL-Library.AList"
begin

section \<open>Python values used by the strategy service\<close>

text \<open>
  The strategy service (\<^verbatim>\<open>backend/app/services/strategy.py\<close>) computes on Python
  floats, ints, strings, lists and dicts. In this development a Python \<^verbatim>\<open>float\<close> is a
  \<^typ>\<open>real\<close>: finite and exact, so there is no NaN, no infinity and no binary rounding
  error; the only rounding is the explicit \<^verbatim>\<open>round(x, 2)\<close> of the source. A Python
  \<^verbatim>\<open>int\<close> is an \<^typ>\<open>int\<close>, a \<^verbatim>\<open>str\<close> is a \<^typ>\<open>string\<close> of characters with code
  points below 256, compared by code point, and every exception the source can raise
  is a value of \<open>py_error\<close> returned on the left of a sum.
\<close>

datatype py_error = ZeroDivisionError | ValueError | TypeError | KeyError

text \<open>Float division \<^verbatim>\<open>a / b\<close>: Python raises \<^verbatim>\<open>ZeroDivisionError\<close> when \<^verbatim>\<open>b == 0\<close>.\<close>

definition py_truediv :: "real \<Rightarrow> real \<Rightarrow> py_error + real" where
  "py_truediv a b = (if b = 0 then Inl ZeroDivisionError else Inr (a / b))"

text \<open>\<^verbatim>\<open>round(x, 2)\<close>: the nearest multiple of 0.01, ties to the even neighbour.\<close>

definition round_half_even :: "real \<Rightarrow> int" where
  "round_half_even y =
     (let f = \<lfloor>y\<rfloor>; d = y - of_int f
      in if d < 1 / 2 then f
         else if 1 / 2 < d then f + 1
         else if even f then f else f + 1)"

definition py_round2 :: "real \<Rightarrow> real" where
  "py_round2 x = of_int (round_half_even (x * 100)) / 100"

text \<open>
  How Python prints a float (\<^verbatim>\<open>f"{x:.2f}"\<close> and \<^verbatim>\<open>f"{x}"\<close>) depends on its binary
  representation, which a real does not have; the two renderings are parameters of
  the model. Nothing proved below depends on what they return.
\<close>

record float_text =
  format_2f :: "real \<Rightarrow> string"
  str_float :: "real \<Rightarrow> string"

text \<open>\<^verbatim>\<open>str(n)\<close> for an int, as an f-string renders it.\<close>

definition digit_char :: "nat \<Rightarrow> char" where
  "digit_char d = ''0123456789'' ! d"

fun str_nat :: "nat \<Rightarrow> string" where
  "str_nat n = (if n < 10 then [digit_char n] else str_nat (n div 10) @ [digit_char (n mod 10)])"

declare str_nat.simps [simp del]

definition str_int :: "int \<Rightarrow> string" where
  "str_int i = (if i < 0 then CHR ''-'' # str_nat (nat (- i)) else str_nat (nat i))"

text \<open>\<^verbatim>\<open>s.replace(a, b)\<close> for single characters and \<^verbatim>\<open>s.title()\<close>, on ASCII text.\<close>

definition str_replace_char :: "char \<Rightarrow> char \<Rightarrow> string \<Rightarrow> string" where
  "str_replace_char a b s = map (\<lambda>c. if c = a then b else c) s"

definition py_upper :: "char \<Rightarrow> char" where
  "py_upper c =
     (case map_of (zip ''abcdefghijklmnopqrstuvwxyz'' ''ABCDEFGHIJKLMNOPQRSTUVWXYZ'') c of
        Some u \<Rightarrow> u | None \<Rightarrow> c)"

definition py_lower :: "char \<Rightarrow> char" where
  "py_lower c =
     (case map_of (zip ''ABCDEFGHIJKLMNOPQRSTUVWXYZ'' ''abcdefghijklmnopqrstuvwxyz'') c of
        Some l \<Rightarrow> l | None \<Rightarrow> c)"

definition is_cased :: "char \<Rightarrow> bool" where
  "is_cased c = (c \<in> set (''abcdefghijklmnopqrstuvwxyz'' @ ''ABCDEFGHIJKLMNOPQRSTUVWXYZ''))"

fun title_from :: "bool \<Rightarrow> string \<Rightarrow> string" where
  "title_from previous_cased [] = []"
| "title_from previous_cased (c # cs) =
     (if is_cased c
      then (if previous_cased then py_lower c else py_upper c) # title_from True cs
      else c # title_from False cs)"

definition str_title :: "string \<Rightarrow> string" where
  "str_title s = title_from False s"

subsection \<open>\<^verbatim>\<open>datetime.strptime\<close> for the two formats the service uses\<close>

text \<open>
  \<^verbatim>\<open>strptime\<close> turns the format into a regular expression, takes the first match the
  backtracking matcher finds at the start of the text, raises \<^verbatim>\<open>ValueError\<close> when
  there is none or when text is left over, and then builds the date, raising
  \<^verbatim>\<open>ValueError\<close> for year 0 and for a day the month does not have. Each directive below
  returns its possible matches in the matcher's order of preference, as pairs of the
  number read and the text left. Below code point 256 the digits of \<^verbatim>\<open>\d\<close> are the
  ten ASCII digits, and the blanks of \<^verbatim>\<open>\s\<close> are the six ASCII blanks, the four
  separators \<^verbatim>\<open>0x1C\<close> to \<^verbatim>\<open>0x1F\<close>, \<^verbatim>\<open>0x85\<close> and \<^verbatim>\<open>0xA0\<close>.
\<close>

record py_datetime =
  year :: nat
  month :: nat
  day :: nat
  hour :: nat
  minute :: nat

definition digit_val :: "char \<Rightarrow> nat option" where
  "digit_val c =
     map_of [(CHR ''0'', 0), (CHR ''1'', 1), (CHR ''2'', 2), (CHR ''3'', 3), (CHR ''4'', 4),
             (CHR ''5'', 5), (CHR ''6'', 6), (CHR ''7'', 7), (CHR ''8'', 8), (CHR ''9'', 9)] c"

definition digit_between :: "nat \<Rightarrow> nat \<Rightarrow> char \<Rightarrow> bool" where
  "digit_between lo hi c = (case digit_val c of None \<Rightarrow> False | Some d \<Rightarrow> lo \<le> d \<and> d \<le> hi)"

definition digit_of :: "char \<Rightarrow> nat" where
  "digit_of c = (case digit_val c of None \<Rightarrow> 0 | Some d \<Rightarrow> d)"

definition is_space :: "char \<Rightarrow> bool" where
  "is_space c =
     (c \<in> set [CHR '' '', CHR 0x09, CHR 0x0A, CHR 0x0B, CHR 0x0C, CHR 0x0D,
               CHR 0x1C, CHR 0x1D, CHR 0x1E, CHR 0x1F, CHR 0x85, CHR 0xA0])"

definition two_chars :: "(char \<Rightarrow> bool) \<Rightarrow> (char \<Rightarrow> bool) \<Rightarrow> string \<Rightarrow> (nat \<times> string) list" where
  "two_chars p q s =
     (case s of
        a # b # rest \<Rightarrow> if p a \<and> q b then [(10 * digit_of a + digit_of b, rest)] else []
      | _ \<Rightarrow> [])"

definition one_char :: "(char \<Rightarrow> bool) \<Rightarrow> string \<Rightarrow> (nat \<times> string) list" where
  "one_char p s = (case s of a # rest \<Rightarrow> if p a then [(digit_of a, rest)] else [] | [] \<Rightarrow> [])"

definition lit :: "char \<Rightarrow> string \<Rightarrow> string list" where
  "lit c s = (case s of a # rest \<Rightarrow> if a = c then [rest] else [] | [] \<Rightarrow> [])"

text \<open>\<^verbatim>\<open>%Y\<close> is \<^verbatim>\<open>\d\d\d\d\<close>.\<close>

definition regex_year :: "string \<Rightarrow> (nat \<times> string) list" where
  "regex_year s =
     [(100 * hi + lo, r2). (hi, r1) \<leftarrow> two_chars (digit_between 0 9) (digit_between 0 9) s,
                          (lo, r2) \<leftarrow> two_chars (digit_between 0 9) (digit_between 0 9) r1]"

text \<open>\<^verbatim>\<open>%m\<close> is \<^verbatim>\<open>1[0-2]|0[1-9]|[1-9]\<close>.\<close>

definition regex_month :: "string \<Rightarrow> (nat \<times> string) list" where
  "regex_month s =
     two_chars (digit_between 1 1) (digit_between 0 2) s @
     two_chars (digit_between 0 0) (digit_between 1 9) s @
     one_char (digit_between 1 9) s"

text \<open>\<^verbatim>\<open>%d\<close> is \<^verbatim>\<open>3[0-1]|[1-2]\d|0[1-9]|[1-9]| [1-9]\<close>.\<close>

definition regex_day :: "string \<Rightarrow> (nat \<times> string) list" where
  "regex_day s =
     two_chars (digit_between 3 3) (digit_between 0 1) s @
     two_chars (digit_between 1 2) (digit_between 0 9) s @
     two_chars (digit_between 0 0) (digit_between 1 9) s @
     one_char (digit_between 1 9) s @
     concat (map (one_char (digit_between 1 9)) (lit CHR '' '' s))"

text \<open>\<^verbatim>\<open>%H\<close> is \<^verbatim>\<open>2[0-3]|[0-1]\d|\d\<close> and \<^verbatim>\<open>%M\<close> is \<^verbatim>\<open>[0-5]\d|\d\<close>.\<close>

definition regex_hour :: "string \<Rightarrow> (nat \<times> string) list" where
  "regex_hour s =
     two_chars (digit_between 2 2) (digit_between 0 3) s @
     two_chars (digit_between 0 1) (digit_between 0 9) s @
     one_char (digit_between 0 9) s"

definition regex_minute :: "string \<Rightarrow> (nat \<times> string) list" where
  "regex_minute s =
     two_chars (digit_between 0 5) (digit_between 0 9) s @
     one_char (digit_between 0 9) s"

text \<open>A blank in the format is \<^verbatim>\<open>\s+\<close>, greedy: the longest run of blanks first.\<close>

fun regex_spaces_star :: "string \<Rightarrow> string list" where
  "regex_spaces_star [] = [[]]"
| "regex_spaces_star (c # s) = (if is_space c then regex_spaces_star s @ [c # s] else [c # s])"

definition regex_spaces :: "string \<Rightarrow> string list" where
  "regex_spaces s = (case s of [] \<Rightarrow> [] | c # rest \<Rightarrow> if is_space c then regex_spaces_star rest else [])"

definition regex_date :: "string \<Rightarrow> ((nat \<times> nat \<times> nat) \<times> string) list" where
  "regex_date s =
     [((y, m, d), r5). (y, r1) \<leftarrow> regex_year s, r2 \<leftarrow> lit CHR ''-'' r1,
                      (m, r3) \<leftarrow> regex_month r2, r4 \<leftarrow> lit CHR ''-'' r3,
                      (d, r5) \<leftarrow> regex_day r4]"

definition regex_time :: "string \<Rightarrow> ((nat \<times> nat) \<times> string) list" where
  "regex_time s =
     [((h, mi), r4). r1 \<leftarrow> regex_spaces s, (h, r2) \<leftarrow> regex_hour r1,
                    r3 \<leftarrow> lit CHR '':'' r2, (mi, r4) \<leftarrow> regex_minute r3]"

definition is_leap :: "nat \<Rightarrow> bool" where
  "is_leap y = (y mod 4 = 0 \<and> (y mod 100 \<noteq> 0 \<or> y mod 400 = 0))"

definition days_in_month :: "nat \<Rightarrow> nat \<Rightarrow> nat" where
  "days_in_month y m =
     (if m = 2 then (if is_leap y then 29 else 28)
      else if m = 4 \<or> m = 6 \<or> m = 9 \<or> m = 11 then 30 else 31)"

definition make_datetime :: "nat \<Rightarrow> nat \<Rightarrow> nat \<Rightarrow> nat \<Rightarrow> nat \<Rightarrow> py_error + py_datetime" where
  "make_datetime y m d h mi =
     (if 1 \<le> y \<and> 1 \<le> d \<and> d \<le> days_in_month y m
      then Inr \<lparr>year = y, month = m, day = d, hour = h, minute = mi\<rparr>
      else Inl ValueError)"

text \<open>\<^verbatim>\<open>datetime.strptime(s, "%Y-%m-%d")\<close>\<close>

definition strptime_date :: "string \<Rightarrow> py_error + py_datetime" where
  "strptime_date s =
     (case regex_date s of
        [] \<Rightarrow> Inl ValueError
      | ((y, m, d), rest) # _ \<Rightarrow>
          if rest = [] then make_datetime y m d 0 0 else Inl ValueError)"

text \<open>\<^verbatim>\<open>datetime.strptime(s, "%Y-%m-%d %H:%M")\<close>\<close>

definition strptime_datetime :: "string \<Rightarrow> py_error + py_datetime" where
  "strptime_datetime s =
     (case [((y, m, d), (h, mi), r2). ((y, m, d), r1) \<leftarrow> regex_date s,
                                      ((h, mi), r2) \<leftarrow> regex_time r1] of
        [] \<Rightarrow> Inl ValueError
      | ((y, m, d), (h, mi), rest) # _ \<Rightarrow>
          if rest = [] then make_datetime y m d h mi else Inl ValueError)"

section \<open>The data model (\<^verbatim>\<open>backend/app/models/schemas.py\<close>)\<close>

datatype RaceType = FLAT | HURDLE | CHASE | NATIONAL_HUNT_FLAT | HUNTERS_CHASE

fun RaceType_value :: "RaceType \<Rightarrow> string" where
  "RaceType_value FLAT = ''flat''"
| "RaceType_value HURDLE = ''hurdle''"
| "RaceType_value CHASE = ''chase''"
| "RaceType_value NATIONAL_HUNT_FLAT = ''national_hunt_flat''"
| "RaceType_value HUNTERS_CHASE = ''hunters_chase''"

datatype GoingCondition =
  FIRM | GOOD_TO_FIRM | GOOD | GOOD_TO_SOFT | SOFT | HEAVY | STANDARD | SLOW

fun GoingCondition_value :: "GoingCondition \<Rightarrow> string" where
  "GoingCondition_value FIRM = ''firm''"
| "GoingCondition_value GOOD_TO_FIRM = ''good_to_firm''"
| "GoingCondition_value GOOD = ''good''"
| "GoingCondition_value GOOD_TO_SOFT = ''good_to_soft''"
| "GoingCondition_value SOFT = ''soft''"
| "GoingCondition_value HEAVY = ''heavy''"
| "GoingCondition_value STANDARD = ''standard''"
| "GoingCondition_value SLOW = ''slow''"

datatype Country = UK | IRE

datatype BetStatus = PENDING | MATCHED | SETTLED | CANCELLED | VOIDED

datatype BetResult = WON | LOST | VOID

record RaceBase =
  event_id :: string
  market_id :: string
  event_name :: string
  course_name :: string
  race_time :: string
  race_date :: string
  race_type :: RaceType
  race_class :: int
  distance :: string
  going :: GoingCondition
  number_of_runners :: int
  country :: Country
  track_direction :: string
  is_handicap :: bool

record Race = RaceBase +
  id :: string

record RunnerBase =
  race_id :: string
  selection_id :: int
  horse_name :: string
  jockey :: string
  trainer :: string
  age :: int
  weight :: string
  draw :: "int option"
  bsp_odds :: "real option"
  position :: "int option"
  is_favorite :: bool
  sp :: string

record Runner = RunnerBase +
  id :: string

record StrategyRules =
  min_odds :: real
  max_odds :: real
  min_runners :: int
  max_runners :: int
  allowed_race_types :: "RaceType list"
  exclude_handicaps :: bool
  handicap_stake_multiplier :: real
  going_adjustments :: "GoingCondition \<rightharpoonup> real"
  track_adjustments :: "string \<rightharpoonup> real"
  monthly_adjustments :: "int \<rightharpoonup> real"
  exclude_amateur_races :: bool
  exclude_apprentice_races :: bool

record StakeManagement =
  base_stake_percent :: real
  max_liability_percent :: real
  daily_loss_limit_percent :: real
  weekly_loss_limit_percent :: real
  use_kelly_criterion :: bool
  kelly_fraction :: real

text \<open>The bounds the schema's \<^verbatim>\<open>Field(ge=..., le=...)\<close> declarations put on the two
  configurations when they are validated.\<close>

definition StrategyRules_valid :: "StrategyRules \<Rightarrow> bool" where
  "StrategyRules_valid rules =
     (101 / 100 \<le> min_odds rules \<and> max_odds rules \<le> 20 \<and>
      2 \<le> min_runners rules \<and> max_runners rules \<le> 40 \<and>
      0 \<le> handicap_stake_multiplier rules \<and> handicap_stake_multiplier rules \<le> 2)"

definition StakeManagement_valid :: "StakeManagement \<Rightarrow> bool" where
  "StakeManagement_valid sm =
     (1 / 100 \<le> base_stake_percent sm \<and> base_stake_percent sm \<le> 10 \<and>
      1 / 10 \<le> max_liability_percent sm \<and> max_liability_percent sm \<le> 20 \<and>
      1 / 2 \<le> daily_loss_limit_percent sm \<and> daily_loss_limit_percent sm \<le> 50 \<and>
      1 \<le> weekly_loss_limit_percent sm \<and> weekly_loss_limit_percent sm \<le> 100 \<and>
      1 / 100 \<le> kelly_fraction sm \<and> kelly_fraction sm \<le> 1)"

section \<open>The strategy service (\<^verbatim>\<open>StrategyService\<close>)\<close>

text \<open>
  \<^verbatim>\<open>self.rules\<close> and \<^verbatim>\<open>self.stake_management\<close> are passed to each method that reads
  them.

  \<open>penalise\<close> is one check of \<^verbatim>\<open>check_race_qualification\<close>: when the test fails, it
  appends the reason and lowers the score. \<open>penalty_checks\<close> is the block of six checks
  that follows the test for missing odds, from \<^verbatim>\<open>reasons = []\<close> and
  \<^verbatim>\<open>score = 100.0\<close>; it returns the reasons recorded and the score.

  The two tests on the odds compare reals. A Python float can also be NaN, for which
  both \<^verbatim>\<open><\<close> and \<^verbatim>\<open>>\<close> are False: a price that is NaN has no counterpart here.
\<close>

definition penalise :: "bool \<Rightarrow> string \<Rightarrow> real \<Rightarrow> string list \<times> real \<Rightarrow> string list \<times> real" where
  "penalise failed reason penalty st =
     (case st of (reasons, score) \<Rightarrow>
        if failed then (reasons @ [reason], score - penalty) else (reasons, score))"

definition penalty_checks :: "float_text \<Rightarrow> StrategyRules \<Rightarrow> Race \<Rightarrow> real \<Rightarrow> string list \<times> real" where
  "penalty_checks ft rules race favorite_odds =
     (let st = ([], 100);
          st = penalise (favorite_odds < min_odds rules)
                 (''Odds '' @ format_2f ft favorite_odds @ '' below minimum '' @
                  str_float ft (min_odds rules)) 30 st;
          st = penalise (favorite_odds > max_odds rules)
                 (''Odds '' @ format_2f ft favorite_odds @ '' above maximum '' @
                  str_float ft (max_odds rules)) 30 st;
          st = penalise (number_of_runners race < min_runners rules)
                 (''Only '' @ str_int (number_of_runners race) @ '' runners (minimum: '' @
                  str_int (min_runners rules) @ '')'') 25 st;
          st = penalise (number_of_runners race > max_runners rules)
                 (str_int (number_of_runners race) @ '' runners exceeds maximum of '' @
                  str_int (max_runners rules)) 15 st;
          st = penalise (race_type race \<notin> set (allowed_race_types rules))
                 (''Race type '' @ RaceType_value (race_type race) @ '' not allowed'') 40 st;
          st = penalise (is_handicap race \<and> exclude_handicaps rules)
                 ''Handicap races excluded'' 35 st
      in st)"

definition check_race_qualification ::
  "float_text \<Rightarrow> StrategyRules \<Rightarrow> Race \<Rightarrow> Runner \<Rightarrow> bool \<times> string list \<times> real" where
  "check_race_qualification ft rules race favorite =
     (case bsp_odds favorite of
        None \<Rightarrow> (False, [] @ [''No BSP odds available''], 0)
      | Some favorite_odds \<Rightarrow>
          (let (reasons, score) = penalty_checks ft rules race favorite_odds;
               qualifies = (length reasons = 0);
               reasons =
                 (if qualifies
                  then (let reasons = reasons @ [''All criteria met''];
                            reasons =
                              (if going race = SOFT \<or> going race = HEAVY
                               then reasons @
                                    [str_title (str_replace_char CHR ''_'' CHR '' ''
                                                  (GoingCondition_value (going race))) @
                                     '' going (+20% stake)'']
                               else reasons);
                            reasons =
                              (if track_direction race = ''figure8''
                               then reasons @ [''Figure-8 track (+15% stake)'']
                               else reasons)
                        in reasons)
                  else reasons)
           in (qualifies, reasons, max 0 score)))"

definition calculate_stake_multiplier :: "StrategyRules \<Rightarrow> Race \<Rightarrow> py_error + real" where
  "calculate_stake_multiplier rules race =
     (let multiplier = 1;
          going_adj = (case going_adjustments rules (going race) of None \<Rightarrow> 1 | Some a \<Rightarrow> a);
          multiplier = multiplier * going_adj;
          multiplier =
            (case track_adjustments rules (track_direction race) of
               None \<Rightarrow> multiplier
             | Some track_adj \<Rightarrow> multiplier * track_adj)
      in case strptime_date (race_date race) of
           Inl e \<Rightarrow> Inl e
         | Inr parsed \<Rightarrow>
             (let race_month = int (month parsed);
                  multiplier =
                    (case monthly_adjustments rules race_month of
                       None \<Rightarrow> multiplier
                     | Some month_adj \<Rightarrow> multiplier * month_adj);
                  multiplier =
                    (if is_handicap race \<and> \<not> exclude_handicaps rules
                     then multiplier * handicap_stake_multiplier rules
                     else multiplier)
              in Inr multiplier))"

definition calculate_stake ::
  "StakeManagement \<Rightarrow> real \<Rightarrow> real \<Rightarrow> real \<Rightarrow> py_error + (real \<times> real)" where
  "calculate_stake sm bankroll odds multiplier =
     (let base_stake = bankroll * (base_stake_percent sm / 100) * multiplier;
          liability = base_stake * (odds - 1);
          max_liability = bankroll * (max_liability_percent sm / 100)
      in if liability > max_liability
         then (case py_truediv max_liability (odds - 1) of
                 Inl e \<Rightarrow> Inl e
               | Inr capped_stake \<Rightarrow> Inr (py_round2 capped_stake, py_round2 max_liability))
         else Inr (py_round2 base_stake, py_round2 liability))"

text \<open>\<^verbatim>\<open>random.random()\<close> is the argument \<open>u\<close>: a draw from \<open>[0, 1)\<close>.\<close>

definition simulate_bet_result :: "real \<Rightarrow> real \<Rightarrow> BetResult" where
  "simulate_bet_result odds u =
     (let base_lay_win_prob = 67 / 100;
          odds_adjustment = (odds - 2) * (2 / 100);
          lay_win_prob = min (75 / 100) (max (55 / 100) (base_lay_win_prob + odds_adjustment))
      in if u < lay_win_prob then WON else LOST)"

definition calculate_profit_loss :: "real \<Rightarrow> real \<Rightarrow> BetResult \<Rightarrow> real" where
  "calculate_profit_loss stake liability result =
     (if result = WON then stake
      else if result = LOST then - liability
      else 0)"

record QualifyingRace = Race +
  favorite :: Runner
  qualification_score :: real
  adjusted_stake_multiplier :: real
  suggested_stake :: real
  suggested_liability :: real
  reasons :: "string list"

text \<open>\<open>None\<close> is the \<^verbatim>\<open>None\<close> of the source: the race does not qualify. Subtracting 1
  from missing odds would be a \<^verbatim>\<open>TypeError\<close>.\<close>

definition evaluate_race ::
  "float_text \<Rightarrow> StrategyRules \<Rightarrow> StakeManagement \<Rightarrow> Race \<Rightarrow> Runner \<Rightarrow> real \<Rightarrow>
   py_error + QualifyingRace option" where
  "evaluate_race ft rules sm race favorite bankroll =
     (let (qualifies, reasons, score) = check_race_qualification ft rules race favorite
      in if \<not> qualifies then Inr None
         else (case calculate_stake_multiplier rules race of
                 Inl e \<Rightarrow> Inl e
               | Inr multiplier \<Rightarrow>
                   (case bsp_odds favorite of
                      None \<Rightarrow> Inl TypeError
                    | Some odds \<Rightarrow>
                        (case calculate_stake sm bankroll odds multiplier of
                           Inl e \<Rightarrow> Inl e
                         | Inr (stake, liability) \<Rightarrow>
                             Inr (Some (Race.extend race
                               (QualifyingRace.fields favorite score multiplier stake liability
                                  reasons)))))))"
  for favorite

section \<open>The backtest (\<^verbatim>\<open>run_backtest\<close>)\<close>

record BetBase =
  race_id :: string
  runner_id :: string
  strategy_id :: string
  bet_type :: string
  odds :: real
  stake :: real
  liability :: real

record Bet = BetBase +
  id :: string
  status :: BetStatus
  result :: "BetResult option"
  profit_loss :: "real option"
  placed_at :: py_datetime
  settled_at :: "py_datetime option"
  race :: "Race option"
  runner :: "Runner option"

record DailyPerformance =
  date :: string
  total_bets :: int
  won_bets :: int
  lost_bets :: int
  turnover :: real
  liability :: real
  profit_loss :: real
  roi :: real
  starting_bank :: real
  ending_bank :: real

record StrategyPerformance =
  strategy_id :: string
  total_bets :: int
  won_bets :: int
  lost_bets :: int
  win_rate :: real
  total_turnover :: real
  total_liability :: real
  total_profit_loss :: real
  roi :: real
  max_drawdown :: real
  sharpe_ratio :: real
  daily_performance :: "DailyPerformance list"

text \<open>One entry of the dict \<^verbatim>\<open>daily_results\<close>: the six counters kept for a date. The
  dict itself is an association list in insertion order, one pair per date.\<close>

record day_totals =
  bets :: int
  won :: int
  lost :: int
  turnover :: real
  liability :: real
  profit_loss :: real

text \<open>The variables the loop over the races updates, and the number of draws taken
  from the random source so far.\<close>

record backtest_state =
  loop_bets :: "Bet list"
  loop_daily_results :: "(string \<times> day_totals) list"
  loop_bankroll :: real
  loop_draws :: nat

text \<open>A \<^verbatim>\<open>for\<close> loop whose body may raise: the first error ends it.\<close>

fun for_each :: "('a \<Rightarrow> 's \<Rightarrow> py_error + 's) \<Rightarrow> 'a list \<Rightarrow> 's \<Rightarrow> py_error + 's" where
  "for_each body [] s = Inr s"
| "for_each body (x # xs) s =
     (case body x s of Inl e \<Rightarrow> Inl e | Inr s' \<Rightarrow> for_each body xs s')"

text \<open>Grouping the runners by race: \<^verbatim>\<open>race_runners\<close>.\<close>

definition group_runner :: "Runner \<Rightarrow> (string \<rightharpoonup> Runner list) \<Rightarrow> (string \<rightharpoonup> Runner list)" where
  "group_runner r race_runners =
     (let race_runners =
            (if race_runners (RunnerBase.race_id r) = None
             then race_runners(RunnerBase.race_id r \<mapsto> [])
             else race_runners)
      in case race_runners (RunnerBase.race_id r) of
           None \<Rightarrow> race_runners
         | Some rs \<Rightarrow> race_runners(RunnerBase.race_id r \<mapsto> rs @ [r]))"

definition group_runners :: "Runner list \<Rightarrow> (string \<rightharpoonup> Runner list)" where
  "group_runners runners = fold group_runner runners Map.empty"

text \<open>Recording one bet under its date in \<^verbatim>\<open>daily_results\<close>.\<close>

definition track_daily_results ::
  "string \<Rightarrow> real \<Rightarrow> real \<Rightarrow> real \<Rightarrow> BetResult \<Rightarrow> (string \<times> day_totals) list \<Rightarrow>
   (string \<times> day_totals) list" where
  "track_daily_results d suggested_st suggested_li pl res daily_results =
     (let daily_results =
            (if map_of daily_results d = None
             then AList.update d
                    \<lparr>bets = 0, won = 0, lost = 0, turnover = 0, liability = 0, profit_loss = 0\<rparr>
                    daily_results
             else daily_results)
      in case map_of daily_results d of
           None \<Rightarrow> daily_results
         | Some entry \<Rightarrow>
             (let entry = entry\<lparr>bets := bets entry + 1\<rparr>;
                  entry = entry\<lparr>day_totals.turnover := day_totals.turnover entry + suggested_st\<rparr>;
                  entry = entry\<lparr>day_totals.liability := day_totals.liability entry + suggested_li\<rparr>;
                  entry = entry\<lparr>day_totals.profit_loss := day_totals.profit_loss entry + pl\<rparr>;
                  entry = (if res = WON then entry\<lparr>won := won entry + 1\<rparr>
                           else entry\<lparr>lost := lost entry + 1\<rparr>)
              in AList.update d entry daily_results))"

text \<open>The body of the loop over \<^verbatim>\<open>races\<close>, for one race. \<open>rng\<close> is the random source:
  \<open>rng k\<close> is the value of the \<open>k\<close>-th call of \<^verbatim>\<open>random.random()\<close>.\<close>

definition backtest_race ::
  "float_text \<Rightarrow> (nat \<Rightarrow> real) \<Rightarrow> StrategyRules \<Rightarrow> StakeManagement \<Rightarrow>
   (string \<rightharpoonup> Runner list) \<Rightarrow> Race \<Rightarrow> backtest_state \<Rightarrow> py_error + backtest_state" where
  "backtest_race ft rng rules sm race_runners race st =
     (case race_runners (Race.id race) of
        None \<Rightarrow> Inr st
      | Some race_runners_list \<Rightarrow>
          (case filter is_favorite race_runners_list of
             [] \<Rightarrow> Inr st
           | fav # _ \<Rightarrow>
               (case evaluate_race ft rules sm race fav (loop_bankroll st) of
                  Inl e \<Rightarrow> Inl e
                | Inr None \<Rightarrow> Inr st
                | Inr (Some qualifying_race) \<Rightarrow>
                    (case bsp_odds fav of
                       None \<Rightarrow> Inl TypeError
                     | Some fav_odds \<Rightarrow>
                         (let res = simulate_bet_result fav_odds (rng (loop_draws st));
                              pl = calculate_profit_loss (suggested_stake qualifying_race)
                                     (suggested_liability qualifying_race) res;
                              bankroll = loop_bankroll st + pl
                          in case strptime_datetime (race_date race @ '' '' @ race_time race) of
                               Inl e \<Rightarrow> Inl e
                             | Inr scheduled \<Rightarrow>
                                 (let bet =
                                        \<lparr>race_id = Race.id race,
                                         runner_id = Runner.id fav,
                                         strategy_id = ''backtest'',
                                         bet_type = ''lay'',
                                         odds = fav_odds,
                                         stake = suggested_stake qualifying_race,
                                         liability = suggested_liability qualifying_race,
                                         id = ''bt_'' @ str_int (int (length (loop_bets st)) + 1),
                                         status = SETTLED,
                                         result = Some res,
                                         profit_loss = Some pl,
                                         placed_at = scheduled,
                                         settled_at = Some scheduled,
                                         race = Some race,
                                         runner = Some fav\<rparr>
                                  in Inr \<lparr>loop_bets = loop_bets st @ [bet],
                                          loop_daily_results =
                                            track_daily_results (race_date race)
                                              (suggested_stake qualifying_race)
                                              (suggested_liability qualifying_race) pl res
                                              (loop_daily_results st),
                                          loop_bankroll = bankroll,
                                          loop_draws = Suc (loop_draws st)\<rparr>))))))"
  for race

text \<open>The equity curve after \<^verbatim>\<open>[initial_bankroll]\<close>: the running total after each bet.\<close>

fun equity_curve_from :: "real \<Rightarrow> Bet list \<Rightarrow> py_error + real list" where
  "equity_curve_from running_total [] = Inr []"
| "equity_curve_from running_total (b # bs) =
     (case Bet.profit_loss b of
        None \<Rightarrow> Inl TypeError
      | Some pl \<Rightarrow>
          (case equity_curve_from (running_total + pl) bs of
             Inl e \<Rightarrow> Inl e
           | Inr curve \<Rightarrow> Inr ((running_total + pl) # curve)))"

text \<open>The loop of \<^verbatim>\<open>calculate_max_drawdown\<close>, from the current \<^verbatim>\<open>max_dd\<close> and
  \<^verbatim>\<open>peak\<close>.\<close>

fun max_drawdown_loop :: "real \<Rightarrow> real \<Rightarrow> real list \<Rightarrow> py_error + real" where
  "max_drawdown_loop max_dd peak [] = Inr max_dd"
| "max_drawdown_loop max_dd peak (v # vs) =
     (let peak = (if v > peak then v else peak)
      in case py_truediv (peak - v) peak of
           Inl e \<Rightarrow> Inl e
         | Inr q \<Rightarrow>
             (let dd = q * 100;
                  max_dd = (if dd > max_dd then dd else max_dd)
              in max_drawdown_loop max_dd peak vs))"

definition calculate_max_drawdown :: "real list \<Rightarrow> py_error + real" where
  "calculate_max_drawdown equity_curve =
     (if length equity_curve < 2 then Inr 0
      else (case equity_curve of
              [] \<Rightarrow> Inr 0
            | first # _ \<Rightarrow>
                (case max_drawdown_loop 0 first equity_curve of
                   Inl e \<Rightarrow> Inl e
                 | Inr max_dd \<Rightarrow> Inr (py_round2 max_dd))))"

text \<open>The list comprehension of \<^verbatim>\<open>calculate_sharpe_ratio\<close>:
  \<^verbatim>\<open>[b.profit_loss / b.stake for b in bets if b.stake > 0]\<close>.\<close>

fun bet_returns :: "Bet list \<Rightarrow> py_error + real list" where
  "bet_returns [] = Inr []"
| "bet_returns (b # bs) =
     (if stake b > 0
      then (case Bet.profit_loss b of
              None \<Rightarrow> Inl TypeError
            | Some pl \<Rightarrow>
                (case py_truediv pl (stake b) of
                   Inl e \<Rightarrow> Inl e
                 | Inr ret \<Rightarrow>
                     (case bet_returns bs of
                        Inl e \<Rightarrow> Inl e
                      | Inr rets \<Rightarrow> Inr (ret # rets))))
      else bet_returns bs)"

text \<open>\<^verbatim>\<open>numpy.mean\<close> and \<^verbatim>\<open>numpy.std\<close> (the population standard deviation).\<close>

definition np_mean :: "real list \<Rightarrow> real" where
  "np_mean xs = sum_list xs / real (length xs)"

definition np_std :: "real list \<Rightarrow> real" where
  "np_std xs = sqrt (np_mean (map (\<lambda>x. (x - np_mean xs)\<^sup>2) xs))"

definition calculate_sharpe_ratio :: "Bet list \<Rightarrow> py_error + real" where
  "calculate_sharpe_ratio bs =
     (if length bs < 2 then Inr 0
      else (case bet_returns bs of
              Inl e \<Rightarrow> Inl e
            | Inr returns \<Rightarrow>
                if length returns < 2 then Inr 0
                else (let mean_return = np_mean returns;
                          std_return = np_std returns
                      in if std_return = 0 then Inr 0
                         else (let annualization_factor = sqrt (7 * 300)
                               in Inr (py_round2
                                    ((mean_return / std_return) * annualization_factor))))))"

text \<open>The loop that builds \<^verbatim>\<open>daily_performance\<close> over the sorted dates, from the
  current \<^verbatim>\<open>running_bank\<close>.\<close>

fun daily_performance_loop ::
  "(string \<times> day_totals) list \<Rightarrow> real \<Rightarrow> string list \<Rightarrow> py_error + DailyPerformance list" where
  "daily_performance_loop daily_results running_bank [] = Inr []"
| "daily_performance_loop daily_results running_bank (d # ds) =
     (case map_of daily_results d of
        None \<Rightarrow> Inl KeyError
      | Some entry \<Rightarrow>
          (let starting = running_bank;
               running_bank = running_bank + day_totals.profit_loss entry
           in case (if day_totals.turnover entry > 0
                    then (case py_truediv (day_totals.profit_loss entry) (day_totals.turnover entry) of
                            Inl e \<Rightarrow> Inl e
                          | Inr q \<Rightarrow> Inr (q * 100))
                    else Inr 0) of
                Inl e \<Rightarrow> Inl e
              | Inr day_roi \<Rightarrow>
                  (case daily_performance_loop daily_results running_bank ds of
                     Inl e \<Rightarrow> Inl e
                   | Inr rest \<Rightarrow>
                       Inr (\<lparr>date = d,
                             total_bets = bets entry,
                             won_bets = won entry,
                             lost_bets = lost entry,
                             turnover = day_totals.turnover entry,
                             liability = day_totals.liability entry,
                             profit_loss = day_totals.profit_loss entry,
                             roi = day_roi,
                             starting_bank = starting,
                             ending_bank = running_bank\<rparr> # rest))))"

text \<open>Everything \<^verbatim>\<open>run_backtest\<close> does after the loop over the races.\<close>

definition performance_metrics ::
  "real \<Rightarrow> backtest_state \<Rightarrow> py_error + (Bet list \<times> StrategyPerformance)" where
  "performance_metrics initial_bankroll st =
     (let bs = loop_bets st;
          n_total = int (length bs);
          n_won = int (length (filter (\<lambda>b. result b = Some WON) bs));
          n_lost = n_total - n_won;
          turnover_sum = sum_list (map stake bs);
          liability_sum = sum_list (map BetBase.liability bs);
          total_pl = loop_bankroll st - initial_bankroll
      in case equity_curve_from initial_bankroll bs of
           Inl e \<Rightarrow> Inl e
         | Inr curve \<Rightarrow>
             (case calculate_max_drawdown (initial_bankroll # curve) of
                Inl e \<Rightarrow> Inl e
              | Inr max_dd \<Rightarrow>
                  (case daily_performance_loop (loop_daily_results st) initial_bankroll
                          (sort (map fst (loop_daily_results st))) of
                     Inl e \<Rightarrow> Inl e
                   | Inr daily \<Rightarrow>
                       (case (if n_total > 0
                              then (case py_truediv (of_int n_won) (of_int n_total) of
                                      Inl e \<Rightarrow> Inl e
                                    | Inr q \<Rightarrow> Inr (q * 100))
                              else Inr 0) of
                          Inl e \<Rightarrow> Inl e
                        | Inr rate \<Rightarrow>
                            (case (if turnover_sum > 0
                                   then (case py_truediv total_pl turnover_sum of
                                           Inl e \<Rightarrow> Inl e
                                         | Inr q \<Rightarrow> Inr (q * 100))
                                   else Inr 0) of
                               Inl e \<Rightarrow> Inl e
                             | Inr total_roi \<Rightarrow>
                                 (case calculate_sharpe_ratio bs of
                                    Inl e \<Rightarrow> Inl e
                                  | Inr sharpe \<Rightarrow>
                                      Inr (bs,
                                           \<lparr>strategy_id = ''backtest'',
                                            total_bets = n_total,
                                            won_bets = n_won,
                                            lost_bets = n_lost,
                                            win_rate = rate,
                                            total_turnover = turnover_sum,
                                            total_liability = liability_sum,
                                            total_profit_loss = total_pl,
                                            roi = total_roi,
                                            max_drawdown = max_dd,
                                            sharpe_ratio = sharpe,
                                            daily_performance = daily\<rparr>)))))))"

definition run_backtest ::
  "float_text \<Rightarrow> (nat \<Rightarrow> real) \<Rightarrow> Race list \<Rightarrow> Runner list \<Rightarrow> StrategyRules \<Rightarrow>
   StakeManagement \<Rightarrow> real \<Rightarrow> py_error + (Bet list \<times> StrategyPerformance)" where
  "run_backtest ft rng races runners strategy_rules stake_management initial_bankroll =
     (case for_each (backtest_race ft rng strategy_rules stake_management (group_runners runners))
             races
             \<lparr>loop_bets = [], loop_daily_results = [], loop_bankroll = initial_bankroll,
              loop_draws = 0\<rparr> of
        Inl e \<Rightarrow> Inl e
      | Inr st \<Rightarrow> performance_metrics initial_bankroll st)"

text \<open>\<^verbatim>\<open>final_bankroll\<close> as the backtest endpoint (\<^verbatim>\<open>backend/app/api/routes.py\<close>) reports
  it.\<close>

definition final_bankroll :: "real \<Rightarrow> StrategyPerformance \<Rightarrow> real" where
  "final_bankroll initial_bankroll performance =
     initial_bankroll + total_profit_loss performance"

section \<open>Maximum drawdown as the specification words it\<close>




section \<open>Configurations and races used as examples\<close>

text \<open>The defaults of the schema.\<close>

definition StrategyRules_default :: StrategyRules where
  "StrategyRules_default =
     \<lparr>min_odds = 2, max_odds = 45 / 10, min_runners = 6, max_runners = 20,
      allowed_race_types = [FLAT, HURDLE, CHASE, NATIONAL_HUNT_FLAT],
      exclude_handicaps = False,
      handicap_stake_multiplier = 7 / 10,
      going_adjustments =
        map_of [(FIRM, 8 / 10), (GOOD_TO_FIRM, 9 / 10), (GOOD, 1), (GOOD_TO_SOFT, 1),
                (SOFT, 12 / 10), (HEAVY, 12 / 10), (STANDARD, 1), (SLOW, 1)],
      track_adjustments = map_of [(''figure8'', 115 / 100)],
      monthly_adjustments = map_of [(1, 9 / 10), (2, 9 / 10), (3, 9 / 10), (12, 85 / 100)],
      exclude_amateur_races = True,
      exclude_apprentice_races = True\<rparr>"

definition StakeManagement_default :: StakeManagement where
  "StakeManagement_default =
     \<lparr>base_stake_percent = 1 / 2, max_liability_percent = 2,
      daily_loss_limit_percent = 5, weekly_loss_limit_percent = 10,
      use_kelly_criterion = True, kelly_fraction = 1 / 4\<rparr>"

definition example_race :: Race where
  "example_race =
     \<lparr>event_id = ''e1'', market_id = ''m1'', event_name = ''2m Hurdle'',
      course_name = ''Ascot'', race_time = ''14:30'', race_date = ''2024-06-15'',
      race_type = HURDLE, race_class = 3, distance = ''2m'', going = GOOD,
      number_of_runners = 8, country = UK, track_direction = ''right'',
      is_handicap = False, Race.id = ''r1''\<rparr>"

definition example_runner :: Runner where
  "example_runner =
     \<lparr>RunnerBase.race_id = ''r1'', selection_id = 7, horse_name = ''Dobbin'', jockey = ''A Rider'',
      trainer = ''A Trainer'', age = 6, weight = ''11-4'', draw = None,
      bsp_odds = Some 3, position = None, is_favorite = True, sp = ''2/1'',
      Runner.id = ''h1''\<rparr>"

definition example_float_text :: float_text where
  "example_float_text = \<lparr>format_2f = (\<lambda>x. ''?''), str_float = (\<lambda>x. ''?'')\<rparr>"

definition example_winter_race :: Race where
  "example_winter_race =
     example_race\<lparr>race_date := ''2024-12-26'', going := SOFT, track_direction := ''figure8'',
                  is_handicap := True\<rparr>"

definition example_outsider :: Runner where
  "example_outsider = example_runner\<lparr>bsp_odds := Some 10\<rparr>"

text \<open>A random source whose first draw is 0 and whose later draws are 1.\<close>

definition example_rng :: "nat \<Rightarrow> real" where
  "example_rng k = (if k = 0 then 0 else 1)"

section \<open>Evaluation of the examples\<close>

lemmas strptime_eval =
  strptime_date_def strptime_datetime_def regex_date_def regex_year_def regex_month_def
  regex_day_def regex_time_def regex_hour_def regex_minute_def regex_spaces_def is_space_def
  two_chars_def one_char_def lit_def digit_between_def digit_of_def digit_val_def
  make_datetime_def days_in_month_def is_leap_def

lemmas round_eval = py_round2_def round_half_even_def Let_def

lemma example_race_date:
  "strptime_date (race_date example_race) =
     Inr \<lparr>year = 2024, month = 6, day = 15, hour = 0, minute = 0\<rparr>"
  by (simp add: example_race_def strptime_eval)

lemma example_race_scheduled:
  "strptime_datetime (race_date example_race @ '' '' @ race_time example_race) =
     Inr \<lparr>year = 2024, month = 6, day = 15, hour = 14, minute = 30\<rparr>"
  by (simp add: example_race_def strptime_eval)

lemma strptime_date_rejects:
  "strptime_date ''2024-02-30'' = Inl ValueError"
  "strptime_date ''15/06/2024'' = Inl ValueError"
  "strptime_date ''2024-06-15 '' = Inl ValueError"
  by (simp_all add: strptime_eval)

lemma example_winter_race_date:
  "strptime_date (race_date example_winter_race) =
     Inr \<lparr>year = 2024, month = 12, day = 26, hour = 0, minute = 0\<rparr>"
  by (simp add: example_winter_race_def example_race_def strptime_eval)

lemma example_race_qualifies:
  "check_race_qualification example_float_text StrategyRules_default example_race
     example_runner = (True, [''All criteria met''], 100)"
  by (simp add: check_race_qualification_def penalty_checks_def penalise_def
      StrategyRules_default_def example_race_def example_runner_def)

lemma example_race_multiplier:
  "calculate_stake_multiplier StrategyRules_default example_race = Inr 1"
  by (simp add: calculate_stake_multiplier_def StrategyRules_default_def example_race_date)
    (simp add: example_race_def)

lemma example_grouped:
  "group_runners [example_runner] (Race.id example_race) = Some [example_runner]"
  by (simp add: group_runners_def group_runner_def example_runner_def example_race_def)

lemma example_race_qualifies_any:
  "check_race_qualification ft StrategyRules_default example_race example_runner =
     (True, [''All criteria met''], 100)"
  by (simp add: check_race_qualification_def penalty_checks_def penalise_def
      StrategyRules_default_def example_race_def example_runner_def)

lemma example_runner_fields:
  "bsp_odds example_runner = Some 3" "is_favorite example_runner"
  by (simp_all add: example_runner_def)

lemma example_race_scheduled':
  "strptime_datetime (race_date example_race @ CHR '' '' # race_time example_race) =
     Inr \<lparr>year = 2024, month = 6, day = 15, hour = 14, minute = 30\<rparr>"
  using example_race_scheduled by simp

lemma example_winter_grouped:
  "group_runners [example_runner] (Race.id example_winter_race) = Some [example_runner]"
  by (simp add: group_runners_def group_runner_def example_runner_def example_race_def
      example_winter_race_def)

lemma example_winter_race_qualifies:
  "check_race_qualification ft StrategyRules_default example_winter_race example_runner =
     (True, [''All criteria met'', ''Soft going (+20% stake)'', ''Figure-8 track (+15% stake)''],
      100)"
  by (simp add: check_race_qualification_def penalty_checks_def penalise_def
      StrategyRules_default_def example_race_def example_winter_race_def example_runner_def
      str_title_def str_replace_char_def is_cased_def py_upper_def py_lower_def)

lemma example_winter_race_multiplier:
  "calculate_stake_multiplier StrategyRules_default example_winter_race = Inr (8211 / 10000)"
  by (simp add: calculate_stake_multiplier_def StrategyRules_default_def example_winter_race_date)
    (simp add: example_winter_race_def example_race_def)

lemma example_stakes:
  "calculate_stake StakeManagement_default 100000 3 (8211 / 10000) = Inr (41055 / 100, 82110 / 100)"
  "calculate_stake StakeManagement_default (2008211 / 20) 3 1 = Inr (50205 / 100, 100411 / 100)"
  by (simp_all add: calculate_stake_def StakeManagement_default_def round_eval)

lemma example_draws:
  "simulate_bet_result 3 (example_rng 0) = WON"
  "simulate_bet_result 3 (example_rng (Suc 0)) = LOST"
  by (simp_all add: simulate_bet_result_def example_rng_def)

lemma example_winter_race_scheduled:
  "strptime_datetime (race_date example_winter_race @ CHR '' '' # race_time example_winter_race) =
     Inr \<lparr>year = 2024, month = 12, day = 26, hour = 14, minute = 30\<rparr>"
  by (simp add: example_winter_race_def example_race_def strptime_eval)

lemma StrategyRules_default_valid: "StrategyRules_valid StrategyRules_default"
  by (simp add: StrategyRules_valid_def StrategyRules_default_def)

lemma StakeManagement_default_valid: "StakeManagement_valid StakeManagement_default"
  by (simp add: StakeManagement_valid_def StakeManagement_default_def)

lemma example_outsider_fails:
  "\<forall>rc \<in> set [example_race].
     (case group_runners [example_outsider] (Race.id rc) of
        None \<Rightarrow> True
      | Some race_runners_list \<Rightarrow>
          (case filter is_favorite race_runners_list of
             [] \<Rightarrow> True
           | fav # _ \<Rightarrow>
               \<not> fst (check_race_qualification example_float_text StrategyRules_default rc fav)))"
  by (simp add: group_runners_def group_runner_def example_outsider_def example_runner_def
      example_race_def check_race_qualification_def penalty_checks_def penalise_def
      StrategyRules_default_def)

section \<open>Rounding to two decimals\<close>

lemma round_half_even_upper: "of_int (round_half_even y) \<le> y + 1 / 2"
  unfolding round_half_even_def Let_def by (auto; linarith)

lemma round_half_even_lower: "y - 1 / 2 \<le> of_int (round_half_even y)"
  unfolding round_half_even_def Let_def by (auto; linarith)

lemma round_half_even_ge_floor: "\<lfloor>y\<rfloor> \<le> round_half_even y"
  unfolding round_half_even_def Let_def by auto

lemma round_half_even_le_floor1: "round_half_even y \<le> \<lfloor>y\<rfloor> + 1"
  unfolding round_half_even_def Let_def by auto

lemma round_half_even_mono:
  assumes "y \<le> z"
  shows "round_half_even y \<le> round_half_even z"
proof (cases "\<lfloor>y\<rfloor> = \<lfloor>z\<rfloor>")
  case True
  with assms show ?thesis
    unfolding round_half_even_def Let_def by auto
next
  case False
  from assms have "\<lfloor>y\<rfloor> \<le> \<lfloor>z\<rfloor>" by (rule floor_mono)
  with False have "\<lfloor>y\<rfloor> + 1 \<le> \<lfloor>z\<rfloor>" by simp
  with round_half_even_le_floor1 [of y] round_half_even_ge_floor [of z] show ?thesis
    by linarith
qed

lemma py_round2_mono: "x \<le> y \<Longrightarrow> py_round2 x \<le> py_round2 y"
  unfolding py_round2_def by (simp add: divide_right_mono round_half_even_mono)

lemma py_round2_upper: "py_round2 x \<le> x + 1 / 200"
  using round_half_even_upper [of "x * 100"] unfolding py_round2_def by simp

lemma py_round2_lower: "x - 1 / 200 \<le> py_round2 x"
  using round_half_even_lower [of "x * 100"] unfolding py_round2_def by simp

lemma py_round2_zero: "py_round2 0 = 0"
  by (simp add: py_round2_def round_half_even_def)

section \<open>Stake sizing\<close>

text \<open>
  C1. For odds above 1, \<open>calculate_stake\<close> returns a pair (stake, liability) whose
  liability is at most \<open>bankroll * max_liability_percent / 100\<close> plus the half cent
  that rounding to two decimals can add; and when the uncapped liability
  \<open>stake * (odds - 1)\<close> is above that ceiling, the stake returned is
  \<open>max_liability / (odds - 1)\<close> and the liability is \<open>max_liability\<close>, both rounded to
  two decimals.
\<close>

theorem calculate_stake_liability_capped:
  fixes x :: real
  assumes "1 < x"
  shows "\<exists>s l.
           calculate_stake sm bankroll x multiplier = Inr (s, l) \<and>
           l \<le> bankroll * (max_liability_percent sm / 100) + 1 / 200 \<and>
           (bankroll * (base_stake_percent sm / 100) * multiplier * (x - 1)
              > bankroll * (max_liability_percent sm / 100) \<longrightarrow>
            s = py_round2 (bankroll * (max_liability_percent sm / 100) / (x - 1)) \<and>
            l = py_round2 (bankroll * (max_liability_percent sm / 100)))"
proof -
  let ?ml = "bankroll * (max_liability_percent sm / 100)"
  let ?l = "bankroll * (base_stake_percent sm / 100) * multiplier * (x - 1)"
  from assms have nz: "x - 1 \<noteq> 0" by simp
  show ?thesis
  proof (cases "?l > ?ml")
    case True
    then have "calculate_stake sm bankroll x multiplier =
        Inr (py_round2 (?ml / (x - 1)), py_round2 ?ml)"
      using nz by (simp add: calculate_stake_def py_truediv_def Let_def)
    with True py_round2_upper [of ?ml] show ?thesis by simp
  next
    case False
    then have eq: "calculate_stake sm bankroll x multiplier =
        Inr (py_round2 (bankroll * (base_stake_percent sm / 100) * multiplier), py_round2 ?l)"
      by (simp add: calculate_stake_def Let_def)
    from False have "py_round2 ?l \<le> py_round2 ?ml"
      by (intro py_round2_mono) simp
    with py_round2_upper [of ?ml] have "py_round2 ?l \<le> ?ml + 1 / 200" by linarith
    with eq False show ?thesis by simp
  qed
qed

theorem calculate_stake_liability_capped_witness:
  "(1 :: real) < 9 \<and>
   calculate_stake StakeManagement_default 100000 9 1 = Inr (250, 2000) \<and>
   (2000 :: real) \<le> 100000 * (max_liability_percent StakeManagement_default / 100) + 1 / 200"
proof -
  have h: "(1 :: real) < 9" by simp
  from calculate_stake_liability_capped [OF h, of StakeManagement_default 100000 1]
  obtain s l where
    eq: "calculate_stake StakeManagement_default 100000 9 1 = Inr (s, l)" and
    le: "l \<le> 100000 * (max_liability_percent StakeManagement_default / 100) + 1 / 200" and
    cap: "100000 * (base_stake_percent StakeManagement_default / 100) * 1 * (9 - 1)
            > 100000 * (max_liability_percent StakeManagement_default / 100) \<longrightarrow>
          s = py_round2 (100000 * (max_liability_percent StakeManagement_default / 100) / (9 - 1)) \<and>
          l = py_round2 (100000 * (max_liability_percent StakeManagement_default / 100))"
    by blast
  from cap have "s = 250" "l = 2000"
    by (simp_all add: StakeManagement_default_def round_eval)
  with eq le h show ?thesis by simp
qed

text \<open>
  C4, as the claim states it, fails: for odds 1/2 \<open>calculate_stake\<close> signals nothing
  and returns a stake of 500 with a liability of -250.
\<close>

theorem calculate_stake_odds_below_one_returns:
  "(1 / 2 :: real) \<le> 1 \<and>
   calculate_stake StakeManagement_default 100000 (1 / 2) 1 = Inr (500, - 250)"
  by (simp add: calculate_stake_def StakeManagement_default_def round_eval)

text \<open>
  C4, amended. \<open>calculate_stake\<close> has no check of its odds and no error of its own.
  For odds below 1 it returns the pair the same formula gives: the rounded base stake
  and the rounded (negative or zero, for a positive stake) liability
  \<open>stake * (odds - 1)\<close>, or the clamped pair when that liability is above
  \<open>max_liability\<close>. For odds equal to 1 the uncapped liability is 0: with
  \<open>max_liability\<close> at least 0 it returns the rounded base stake with liability 0, and
  only with a negative \<open>max_liability\<close> does the division by \<open>odds - 1\<close> run, raising
  Python's \<^verbatim>\<open>ZeroDivisionError\<close>.
\<close>

theorem calculate_stake_odds_le_one:
  fixes x :: real
  assumes "x \<le> 1"
  shows "(x = 1 \<and> bankroll * (max_liability_percent sm / 100) < 0 \<longrightarrow>
            calculate_stake sm bankroll x multiplier = Inl ZeroDivisionError) \<and>
         (x = 1 \<and> 0 \<le> bankroll * (max_liability_percent sm / 100) \<longrightarrow>
            calculate_stake sm bankroll x multiplier =
              Inr (py_round2 (bankroll * (base_stake_percent sm / 100) * multiplier), 0)) \<and>
         (x < 1 \<longrightarrow>
            calculate_stake sm bankroll x multiplier =
              (if bankroll * (base_stake_percent sm / 100) * multiplier * (x - 1)
                    > bankroll * (max_liability_percent sm / 100)
               then Inr (py_round2 (bankroll * (max_liability_percent sm / 100) / (x - 1)),
                         py_round2 (bankroll * (max_liability_percent sm / 100)))
               else Inr (py_round2 (bankroll * (base_stake_percent sm / 100) * multiplier),
                         py_round2 (bankroll * (base_stake_percent sm / 100) * multiplier *
                                    (x - 1)))))"
proof (intro conjI impI)
  assume "x = 1 \<and> bankroll * (max_liability_percent sm / 100) < 0"
  then show "calculate_stake sm bankroll x multiplier = Inl ZeroDivisionError"
    by (simp add: calculate_stake_def py_truediv_def Let_def)
next
  assume "x = 1 \<and> 0 \<le> bankroll * (max_liability_percent sm / 100)"
  then have "calculate_stake sm bankroll x multiplier =
      Inr (py_round2 (bankroll * (base_stake_percent sm / 100) * multiplier), py_round2 0)"
    by (simp add: calculate_stake_def Let_def)
  then show "calculate_stake sm bankroll x multiplier =
      Inr (py_round2 (bankroll * (base_stake_percent sm / 100) * multiplier), 0)"
    by (simp add: py_round2_zero)
next
  assume "x < 1"
  then have "x - 1 \<noteq> 0" by simp
  then show "calculate_stake sm bankroll x multiplier =
              (if bankroll * (base_stake_percent sm / 100) * multiplier * (x - 1)
                    > bankroll * (max_liability_percent sm / 100)
               then Inr (py_round2 (bankroll * (max_liability_percent sm / 100) / (x - 1)),
                         py_round2 (bankroll * (max_liability_percent sm / 100)))
               else Inr (py_round2 (bankroll * (base_stake_percent sm / 100) * multiplier),
                         py_round2 (bankroll * (base_stake_percent sm / 100) * multiplier *
                                    (x - 1))))"
    by (simp add: calculate_stake_def py_truediv_def Let_def)
qed

theorem calculate_stake_odds_le_one_witness:
  "(1 :: real) \<le> 1 \<and> (1 / 2 :: real) \<le> 1 \<and>
   calculate_stake StakeManagement_default 100000 1 1 = Inr (500, 0) \<and>
   calculate_stake StakeManagement_default (- 100000) 1 1 = Inl ZeroDivisionError \<and>
   calculate_stake StakeManagement_default 100000 (1 / 2) 1 = Inr (500, - 250) \<and>
   calculate_stake StakeManagement_default (- 100000) (1 / 2) 1 = Inr (4000, - 2000)"
proof -
  have h: "(1 :: real) \<le> 1" and h2: "(1 / 2 :: real) \<le> 1" by simp_all
  show ?thesis
    using calculate_stake_odds_le_one [OF h, of "100000" StakeManagement_default 1]
      calculate_stake_odds_le_one [OF h, of "- 100000" StakeManagement_default 1]
      calculate_stake_odds_le_one [OF h2, of "100000" StakeManagement_default 1]
      calculate_stake_odds_le_one [OF h2, of "- 100000" StakeManagement_default 1]
    by (simp add: StakeManagement_default_def round_eval)
qed

section \<open>Qualification\<close>

lemma penalise_no_reason: "fst (penalise c r p st) = [] \<longleftrightarrow> fst st = [] \<and> \<not> c"
  by (cases st) (simp add: penalise_def)

lemma penalise_coupled:
  assumes "0 < p" "(fst st = [] \<longrightarrow> snd st = 100) \<and> (fst st \<noteq> [] \<longrightarrow> snd st < 100)"
  shows "(fst (penalise c r p st) = [] \<longrightarrow> snd (penalise c r p st) = 100) \<and>
         (fst (penalise c r p st) \<noteq> [] \<longrightarrow> snd (penalise c r p st) < 100)"
  using assms by (cases st) (auto simp: penalise_def)

lemma penalty_checks_no_reason_iff:
  "fst (penalty_checks ft rules rc x) = [] \<longleftrightarrow>
     \<not> x < min_odds rules \<and> \<not> x > max_odds rules \<and>
     \<not> number_of_runners rc < min_runners rules \<and>
     \<not> number_of_runners rc > max_runners rules \<and>
     race_type rc \<in> set (allowed_race_types rules) \<and>
     \<not> (is_handicap rc \<and> exclude_handicaps rules)"
  unfolding penalty_checks_def Let_def penalise_no_reason by simp

lemma penalty_checks_score:
  "(fst (penalty_checks ft rules rc x) = [] \<longrightarrow> snd (penalty_checks ft rules rc x) = 100) \<and>
   (fst (penalty_checks ft rules rc x) \<noteq> [] \<longrightarrow> snd (penalty_checks ft rules rc x) < 100)"
  unfolding penalty_checks_def Let_def
  by (intro penalise_coupled) simp_all

lemma check_race_qualification_qualifies:
  fixes fav :: Runner and rc :: Race
  shows "fst (check_race_qualification ft rules rc fav) \<longleftrightarrow>
           (\<exists>x. bsp_odds fav = Some x \<and> fst (penalty_checks ft rules rc x) = [])"
  by (cases "bsp_odds fav")
    (simp_all add: check_race_qualification_def Let_def split_def)

text \<open>
  C2. \<open>check_race_qualification\<close> returns \<open>qualifies = True\<close> exactly when the favourite
  has odds and the six checks recorded no reason, that is when none of the six tests
  failed; and whenever it returns \<open>qualifies = True\<close> the score is exactly 100 and the
  first reason is "All criteria met". (A race that does not qualify has a reason and
  a score below 100.)
\<close>

theorem check_race_qualification_coupling:
  fixes fav :: Runner and rc :: Race
  assumes "check_race_qualification ft rules rc fav = (qualifies, rs, sc)"
  shows "(qualifies \<longleftrightarrow>
            (\<exists>x. bsp_odds fav = Some x \<and> fst (penalty_checks ft rules rc x) = [])) \<and>
         (qualifies \<longleftrightarrow>
            (\<exists>x. bsp_odds fav = Some x \<and>
               min_odds rules \<le> x \<and> x \<le> max_odds rules \<and>
               min_runners rules \<le> number_of_runners rc \<and>
               number_of_runners rc \<le> max_runners rules \<and>
               race_type rc \<in> set (allowed_race_types rules) \<and>
               \<not> (is_handicap rc \<and> exclude_handicaps rules))) \<and>
         (qualifies \<longrightarrow> sc = 100 \<and> rs \<noteq> [] \<and> hd rs = ''All criteria met'') \<and>
         (\<not> qualifies \<longrightarrow> rs \<noteq> [] \<and> sc < 100)"
proof (cases "bsp_odds fav")
  case None
  with assms show ?thesis by (auto simp: check_race_qualification_def)
next
  case (Some x)
  obtain ps s where pc: "penalty_checks ft rules rc x = (ps, s)"
    by (cases "penalty_checks ft rules rc x")
  from pc have iff: "ps = [] \<longleftrightarrow>
     \<not> x < min_odds rules \<and> \<not> x > max_odds rules \<and>
     \<not> number_of_runners rc < min_runners rules \<and>
     \<not> number_of_runners rc > max_runners rules \<and>
     race_type rc \<in> set (allowed_race_types rules) \<and>
     \<not> (is_handicap rc \<and> exclude_handicaps rules)"
    using penalty_checks_no_reason_iff [of ft rules rc x] by simp
  from pc have sc100: "ps = [] \<Longrightarrow> s = 100" and lt: "ps \<noteq> [] \<Longrightarrow> s < 100"
    using penalty_checks_score [of ft rules rc x] by simp_all
  from assms Some pc have q: "qualifies = (ps = [])"
    and sc: "sc = max 0 s"
    and rs: "ps \<noteq> [] \<Longrightarrow> rs = ps"
    and rs': "ps = [] \<Longrightarrow> \<exists>tl. rs = ''All criteria met'' # tl"
    by (auto simp: check_race_qualification_def Let_def split: if_splits)
  show ?thesis
    using Some pc q sc rs rs' iff sc100 lt by (cases "ps = []") (auto simp: not_less)
qed

theorem check_race_qualification_coupling_witness:
  "check_race_qualification example_float_text StrategyRules_default example_race
     example_runner = (True, [''All criteria met''], 100) \<and>
   (\<exists>x. bsp_odds example_runner = Some x \<and>
        fst (penalty_checks example_float_text StrategyRules_default example_race x) = [])"
  using check_race_qualification_coupling [OF example_race_qualifies] example_race_qualifies
  by simp

text \<open>
  C3. When the favourite has no odds, \<open>check_race_qualification\<close> returns
  \<open>qualifies = False\<close>, the score 0 and the single reason "No BSP odds available":
  no other check has run.
\<close>

theorem check_race_qualification_no_odds:
  fixes fav :: Runner and rc :: Race
  assumes "bsp_odds fav = None"
  shows "check_race_qualification ft rules rc fav = (False, [''No BSP odds available''], 0)"
  using assms by (simp add: check_race_qualification_def)

theorem check_race_qualification_no_odds_witness:
  "bsp_odds (example_runner\<lparr>bsp_odds := None\<rparr>) = None \<and>
   check_race_qualification example_float_text StrategyRules_default example_race
     (example_runner\<lparr>bsp_odds := None\<rparr>) = (False, [''No BSP odds available''], 0)"
proof -
  have h: "bsp_odds (example_runner\<lparr>bsp_odds := None\<rparr>) = None" by simp
  from check_race_qualification_no_odds [OF h] h show ?thesis by simp
qed

section \<open>The stake multiplier\<close>

text \<open>
  C6, as the claim states it, fails: the schema allows a
  \<^verbatim>\<open>handicap_stake_multiplier\<close> of 0, and for a handicap race the multiplier is then 0,
  which is not above 0.
\<close>

theorem calculate_stake_multiplier_zero:
  "StrategyRules_valid (StrategyRules_default\<lparr>handicap_stake_multiplier := 0\<rparr>) \<and>
   calculate_stake_multiplier (StrategyRules_default\<lparr>handicap_stake_multiplier := 0\<rparr>)
     (example_race\<lparr>is_handicap := True\<rparr>) = Inr 0"
  by (simp add: StrategyRules_valid_def calculate_stake_multiplier_def StrategyRules_default_def
      example_race_def strptime_eval)

text \<open>
  C6, amended. For a race whose \<^verbatim>\<open>race_date\<close> is a date in the format
  \<^verbatim>\<open>%Y-%m-%d\<close>, \<open>calculate_stake_multiplier\<close> returns exactly the product of the going
  entry (1 when the table has none), the track entry (1 when none), the entry of the
  month of the date (1 when none) and, for a handicap when handicaps are not
  excluded, \<^verbatim>\<open>handicap_stake_multiplier\<close> (otherwise 1). The product is above 0 when
  every entry of the three tables and \<^verbatim>\<open>handicap_stake_multiplier\<close> are above 0.
\<close>

theorem calculate_stake_multiplier_product:
  fixes rc :: Race
  assumes "strptime_date (race_date rc) = Inr d"
  shows "calculate_stake_multiplier rules rc =
           Inr ((case going_adjustments rules (going rc) of None \<Rightarrow> 1 | Some a \<Rightarrow> a) *
                (case track_adjustments rules (track_direction rc) of None \<Rightarrow> 1 | Some a \<Rightarrow> a) *
                (case monthly_adjustments rules (int (month d)) of None \<Rightarrow> 1 | Some a \<Rightarrow> a) *
                (if is_handicap rc \<and> \<not> exclude_handicaps rules
                 then handicap_stake_multiplier rules else 1)) \<and>
         ((\<forall>k a. going_adjustments rules k = Some a \<longrightarrow> 0 < a) \<and>
          (\<forall>k a. track_adjustments rules k = Some a \<longrightarrow> 0 < a) \<and>
          (\<forall>k a. monthly_adjustments rules k = Some a \<longrightarrow> 0 < a) \<and>
          0 < handicap_stake_multiplier rules \<longrightarrow>
          (\<exists>m. calculate_stake_multiplier rules rc = Inr m \<and> 0 < m))"
proof -
  let ?G = "case going_adjustments rules (going rc) of None \<Rightarrow> 1 | Some a \<Rightarrow> a"
  let ?T = "case track_adjustments rules (track_direction rc) of None \<Rightarrow> 1 | Some a \<Rightarrow> a"
  let ?M = "case monthly_adjustments rules (int (month d)) of None \<Rightarrow> 1 | Some a \<Rightarrow> a"
  let ?H = "if is_handicap rc \<and> \<not> exclude_handicaps rules
            then handicap_stake_multiplier rules else 1"
  have eq: "calculate_stake_multiplier rules rc = Inr (?G * ?T * ?M * ?H)"
    using assms by (simp add: calculate_stake_multiplier_def Let_def split: option.splits)
  have pos: "0 < ?G * ?T * ?M * ?H"
    if "\<forall>k a. going_adjustments rules k = Some a \<longrightarrow> 0 < a"
      "\<forall>k a. track_adjustments rules k = Some a \<longrightarrow> 0 < a"
      "\<forall>k a. monthly_adjustments rules k = Some a \<longrightarrow> 0 < a"
      "0 < handicap_stake_multiplier rules"
  proof -
    from that have "0 < ?G" "0 < ?T" "0 < ?M" "0 < ?H"
      by (auto split: option.splits)
    then show ?thesis by simp
  qed
  from eq pos show ?thesis by simp
qed

lemma calculate_stake_multiplier_bad_date:
  "calculate_stake_multiplier rules (example_race\<lparr>race_date := ''15/06/2024''\<rparr>) =
     Inl ValueError"
  by (simp add: calculate_stake_multiplier_def strptime_date_rejects)

theorem calculate_stake_multiplier_product_witness:
  "strptime_date (race_date example_winter_race) =
     Inr \<lparr>year = 2024, month = 12, day = 26, hour = 0, minute = 0\<rparr> \<and>
   calculate_stake_multiplier StrategyRules_default example_winter_race =
     Inr (12 / 10 * (115 / 100) * (85 / 100) * (7 / 10)) \<and>
   (\<exists>m. calculate_stake_multiplier StrategyRules_default example_winter_race = Inr m \<and> 0 < m)"
proof -
  have pos: "\<forall>k a. going_adjustments StrategyRules_default k = Some a \<longrightarrow> 0 < a"
    "\<forall>k a. track_adjustments StrategyRules_default k = Some a \<longrightarrow> 0 < a"
    "\<forall>k a. monthly_adjustments StrategyRules_default k = Some a \<longrightarrow> 0 < a"
    "0 < handicap_stake_multiplier StrategyRules_default"
    by (auto simp: StrategyRules_default_def split: if_splits)
  note inst =
    calculate_stake_multiplier_product [OF example_winter_race_date, of StrategyRules_default]
  from inst pos
  have ex: "\<exists>m. calculate_stake_multiplier StrategyRules_default example_winter_race = Inr m \<and>
                0 < m"
    by blast
  from inst have "calculate_stake_multiplier StrategyRules_default example_winter_race =
     Inr (12 / 10 * (115 / 100) * (85 / 100) * (7 / 10))"
    by (simp add: StrategyRules_default_def example_winter_race_def example_race_def)
  with ex example_winter_race_date show ?thesis by blast
qed

section \<open>Maximum drawdown\<close>










lemma calculate_max_drawdown_flat_zero:
  "calculate_max_drawdown [0, 0] = Inl ZeroDivisionError"
  by (simp add: calculate_max_drawdown_def py_truediv_def)






section \<open>The sizing path of the engine\<close>

lemma strptime_date_error: "strptime_date s = Inl e \<Longrightarrow> e = ValueError"
  by (auto simp: strptime_date_def make_datetime_def split: list.splits prod.splits if_splits)

lemma strptime_datetime_error: "strptime_datetime s = Inl e \<Longrightarrow> e = ValueError"
  by (auto simp: strptime_datetime_def make_datetime_def split: list.splits prod.splits if_splits)

lemma calculate_stake_multiplier_error:
  fixes rc :: Race
  shows "calculate_stake_multiplier rules rc = Inl e \<Longrightarrow> e = ValueError"
  by (auto simp: calculate_stake_multiplier_def Let_def split: sum.splits dest: strptime_date_error)

lemma qualifies_odds:
  fixes rc :: Race and fav :: Runner
  assumes "fst (check_race_qualification ft rules rc fav)"
  shows "\<exists>x. bsp_odds fav = Some x \<and> min_odds rules \<le> x"
proof -
  from assms obtain x where
    "bsp_odds fav = Some x" "fst (penalty_checks ft rules rc x) = []"
    unfolding check_race_qualification_qualifies by blast
  then show ?thesis by (auto simp: penalty_checks_no_reason_iff)
qed

lemma calculate_stake_returns:
  fixes x :: real
  assumes "1 < x"
  shows "\<exists>s l. calculate_stake sm bankroll x m = Inr (s, l)"
  using assms by (simp add: calculate_stake_def py_truediv_def Let_def)

lemma QualifyingRace_suggested:
  "suggested_stake (Race.extend r (QualifyingRace.fields f sc m s l rs)) = s"
  "suggested_liability (Race.extend r (QualifyingRace.fields f sc m s l rs)) = l"
  by (simp_all add: Race.defs RaceBase.defs QualifyingRace.defs)

lemma evaluate_race_cases:
  fixes rc :: Race and fav :: Runner
  assumes "StrategyRules_valid rules"
  shows "(\<not> fst (check_race_qualification ft rules rc fav) \<and>
            evaluate_race ft rules sm rc fav bankroll = Inr None) \<or>
         (fst (check_race_qualification ft rules rc fav) \<and>
            evaluate_race ft rules sm rc fav bankroll = Inl ValueError) \<or>
         (fst (check_race_qualification ft rules rc fav) \<and>
            (\<exists>x m q. bsp_odds fav = Some x \<and> 1 < x \<and>
               calculate_stake_multiplier rules rc = Inr m \<and>
               calculate_stake sm bankroll x m = Inr (suggested_stake q, suggested_liability q) \<and>
               evaluate_race ft rules sm rc fav bankroll = Inr (Some q)))"
proof (cases "fst (check_race_qualification ft rules rc fav)")
  case False
  then show ?thesis by (simp add: evaluate_race_def split_def)
next
  case True
  from qualifies_odds [OF True] obtain x where x: "bsp_odds fav = Some x" "min_odds rules \<le> x"
    by blast
  with assms have x1: "1 < x" by (simp add: StrategyRules_valid_def)
  show ?thesis
  proof (cases "calculate_stake_multiplier rules rc")
    case (Inl e)
    with calculate_stake_multiplier_error [OF Inl] True show ?thesis
      by (simp add: evaluate_race_def split_def)
  next
    case (Inr m)
    from calculate_stake_returns [OF x1] obtain s l
      where sl: "calculate_stake sm bankroll x m = Inr (s, l)" by blast
    let ?q = "Race.extend rc (QualifyingRace.fields fav
        (snd (snd (check_race_qualification ft rules rc fav))) m s l
        (fst (snd (check_race_qualification ft rules rc fav))))"
    have "evaluate_race ft rules sm rc fav bankroll = Inr (Some ?q)"
      using True Inr x sl by (simp add: evaluate_race_def split_def Let_def)
    moreover have "calculate_stake sm bankroll x m = Inr (suggested_stake ?q, suggested_liability ?q)"
      using sl by (simp add: QualifyingRace_suggested)
    ultimately show ?thesis using True x x1 Inr by blast
  qed
qed

lemma evaluate_race_error:
  fixes rc :: Race and fav :: Runner
  assumes "StrategyRules_valid rules" "evaluate_race ft rules sm rc fav bankroll = Inl e"
  shows "e = ValueError"
  using evaluate_race_cases [OF assms(1), of ft rc fav sm bankroll] assms(2) by auto

lemma backtest_race_error:
  fixes rc :: Race
  assumes "StrategyRules_valid rules" "backtest_race ft rng rules sm rr rc st = Inl e"
  shows "e = ValueError"
proof -
  { fix fav x
    assume "evaluate_race ft rules sm rc fav (loop_bankroll st) = Inl x"
    then have "x = ValueError" using assms(1) by (rule evaluate_race_error [rotated]) }
  note a = this
  { fix fav q
    assume "evaluate_race ft rules sm rc fav (loop_bankroll st) = Inr (Some q)"
    then have "bsp_odds fav \<noteq> None"
      using evaluate_race_cases [OF assms(1), of ft rc fav sm "loop_bankroll st"] by auto }
  note b = this
  from assms(2) show ?thesis
    by (auto simp: backtest_race_def Let_def
        split: option.splits list.splits sum.splits
        dest: a b strptime_datetime_error)
qed

lemma for_each_error:
  assumes "\<And>x s e. x \<in> set xs \<Longrightarrow> body x s = Inl e \<Longrightarrow> P e" "for_each body xs s = Inl e"
  shows "P e"
  using assms
proof (induction xs arbitrary: s)
  case Nil
  then show ?case by simp
next
  case (Cons x xs)
  show ?case
  proof (cases "body x s")
    case (Inl e')
    with Cons.prems(2) have "e' = e" by simp
    with Inl Cons.prems(1) [of x s e] show ?thesis by simp
  next
    case (Inr s')
    with Cons.prems(2) have "for_each body xs s' = Inl e" by simp
    then show ?thesis by (rule Cons.IH [rotated]) (rule Cons.prems(1), simp_all)
  qed
qed

text \<open>
  The sizing path for prices that are numbers, as every price of this development is.
  Under rules that satisfy the bounds of the schema (so \<^verbatim>\<open>min_odds\<close> is at least 1.01),
  a favourite that qualifies has odds above 1; \<open>evaluate_race\<close> returns \<^verbatim>\<open>None\<close>
  without sizing when the race does not qualify, and whenever it returns a qualifying
  race the stake and liability are those \<open>calculate_stake\<close> returned for odds above 1.
  So neither \<open>evaluate_race\<close> nor the loop of the backtest over the races raises
  \<^verbatim>\<open>ZeroDivisionError\<close>. (C10 says this of every price. In the source a price that is
  NaN passes both tests on the odds, qualifies and is sized; a NaN is not above 1, and
  it is outside this development.)
\<close>

lemma engine_sizing_odds_above_one:
  fixes rc :: Race and fav :: Runner
  assumes "StrategyRules_valid rules"
  shows "(fst (check_race_qualification ft rules rc fav) \<longrightarrow>
            (\<exists>x. bsp_odds fav = Some x \<and> 1 < x)) \<and>
         (\<forall>q. evaluate_race ft rules sm rc fav bankroll = Inr (Some q) \<longrightarrow>
            fst (check_race_qualification ft rules rc fav) \<and>
            (\<exists>x m. bsp_odds fav = Some x \<and> 1 < x \<and>
               calculate_stake_multiplier rules rc = Inr m \<and>
               calculate_stake sm bankroll x m =
                 Inr (suggested_stake q, suggested_liability q))) \<and>
         (\<not> fst (check_race_qualification ft rules rc fav) \<longrightarrow>
            evaluate_race ft rules sm rc fav bankroll = Inr None) \<and>
         evaluate_race ft rules sm rc fav bankroll \<noteq> Inl ZeroDivisionError \<and>
         for_each (backtest_race ft rng rules sm rr) races st \<noteq> Inl ZeroDivisionError"
proof -
  note c = evaluate_race_cases [OF assms, of ft rc fav sm bankroll]
  have 1: "fst (check_race_qualification ft rules rc fav) \<longrightarrow>
            (\<exists>x. bsp_odds fav = Some x \<and> 1 < x)"
    using qualifies_odds [of ft rules rc fav] assms by (fastforce simp: StrategyRules_valid_def)
  have 2: "\<forall>q. evaluate_race ft rules sm rc fav bankroll = Inr (Some q) \<longrightarrow>
            fst (check_race_qualification ft rules rc fav) \<and>
            (\<exists>x m. bsp_odds fav = Some x \<and> 1 < x \<and>
               calculate_stake_multiplier rules rc = Inr m \<and>
               calculate_stake sm bankroll x m =
                 Inr (suggested_stake q, suggested_liability q))"
    using c by auto
  have 3: "\<not> fst (check_race_qualification ft rules rc fav) \<longrightarrow>
            evaluate_race ft rules sm rc fav bankroll = Inr None"
    using c by auto
  have 4: "evaluate_race ft rules sm rc fav bankroll \<noteq> Inl ZeroDivisionError"
    using c by auto
  have 5: "for_each (backtest_race ft rng rules sm rr) races st \<noteq> Inl ZeroDivisionError"
  proof
    assume "for_each (backtest_race ft rng rules sm rr) races st = Inl ZeroDivisionError"
    then have "ZeroDivisionError = ValueError"
      by (rule for_each_error [rotated]) (rule backtest_race_error [OF assms])
    then show False by simp
  qed
  from 1 2 3 4 5 show ?thesis by blast
qed

lemma engine_sizing_odds_above_one_example:
  "StrategyRules_valid StrategyRules_default \<and>
   fst (check_race_qualification example_float_text StrategyRules_default example_race
          example_runner) \<and>
   (\<exists>x. bsp_odds example_runner = Some x \<and> 1 < x) \<and>
   evaluate_race example_float_text StrategyRules_default StakeManagement_default example_race
     example_runner 100000 \<noteq> Inl ZeroDivisionError \<and>
   for_each (backtest_race example_float_text example_rng StrategyRules_default
               StakeManagement_default (group_runners [example_runner]))
     [example_winter_race, example_race]
     \<lparr>loop_bets = [], loop_daily_results = [], loop_bankroll = 100000, loop_draws = 0\<rparr>
     \<noteq> Inl ZeroDivisionError"
proof -
  note inst = engine_sizing_odds_above_one [OF StrategyRules_default_valid,
      of example_float_text example_race example_runner StakeManagement_default 100000
         example_rng "group_runners [example_runner]" "[example_winter_race, example_race]"
         "\<lparr>loop_bets = [], loop_daily_results = [], loop_bankroll = 100000, loop_draws = 0\<rparr>"]
  have q: "fst (check_race_qualification example_float_text StrategyRules_default example_race
          example_runner)"
    by (simp add: example_race_qualifies)
  from inst q StrategyRules_default_valid show ?thesis by blast
qed

section \<open>A backtest without bets\<close>

lemma for_each_unchanged:
  assumes "\<And>x. x \<in> set xs \<Longrightarrow> body x s = Inr s"
  shows "for_each body xs s = Inr s"
  using assms by (induction xs) simp_all

lemma performance_metrics_no_bets:
  "performance_metrics initial
     \<lparr>loop_bets = [], loop_daily_results = [], loop_bankroll = initial, loop_draws = k\<rparr> =
   Inr ([], \<lparr>strategy_id = ''backtest'', total_bets = 0, won_bets = 0, lost_bets = 0,
             win_rate = 0, total_turnover = 0, total_liability = 0, total_profit_loss = 0,
             roi = 0, max_drawdown = 0, sharpe_ratio = 0, daily_performance = []\<rparr>)"
  by (simp add: performance_metrics_def calculate_max_drawdown_def calculate_sharpe_ratio_def)

text \<open>
  C9. When no race qualifies (each race has no runners, no runner flagged favourite,
  or a favourite that fails \<open>check_race_qualification\<close>), \<open>run_backtest\<close> returns an
  empty list of bets and a performance with no bets, a win rate, ROI, maximum
  drawdown and Sharpe ratio of 0 and no daily entries; the final bankroll is the
  initial one.
\<close>

theorem run_backtest_without_qualifying_race:
  assumes "\<forall>rc \<in> set races.
             (case group_runners runners (Race.id rc) of
                None \<Rightarrow> True
              | Some race_runners_list \<Rightarrow>
                  (case filter is_favorite race_runners_list of
                     [] \<Rightarrow> True
                   | fav # _ \<Rightarrow> \<not> fst (check_race_qualification ft rules rc fav)))"
  shows "\<exists>perf. run_backtest ft rng races runners rules sm initial = Inr ([], perf) \<and>
           StrategyPerformance.total_bets perf = 0 \<and>
           StrategyPerformance.won_bets perf = 0 \<and>
           StrategyPerformance.lost_bets perf = 0 \<and>
           win_rate perf = 0 \<and>
           total_turnover perf = 0 \<and>
           total_liability perf = 0 \<and>
           total_profit_loss perf = 0 \<and>
           StrategyPerformance.roi perf = 0 \<and>
           max_drawdown perf = 0 \<and>
           sharpe_ratio perf = 0 \<and>
           daily_performance perf = [] \<and>
           final_bankroll initial perf = initial"
proof -
  let ?st = "\<lparr>loop_bets = [], loop_daily_results = [], loop_bankroll = initial, loop_draws = 0\<rparr>"
  have "backtest_race ft rng rules sm (group_runners runners) rc ?st = Inr ?st"
    if "rc \<in> set races" for rc :: Race
    using assms that
    by (fastforce simp: backtest_race_def evaluate_race_def split_def
        split: option.splits list.splits)
  then have "for_each (backtest_race ft rng rules sm (group_runners runners)) races ?st = Inr ?st"
    by (rule for_each_unchanged)
  then have "run_backtest ft rng races runners rules sm initial =
           Inr ([], \<lparr>strategy_id = ''backtest'', total_bets = 0, won_bets = 0, lost_bets = 0,
                     win_rate = 0, total_turnover = 0, total_liability = 0,
                     total_profit_loss = 0, roi = 0, max_drawdown = 0, sharpe_ratio = 0,
                     daily_performance = []\<rparr>)"
    by (simp add: run_backtest_def performance_metrics_no_bets)
  then show ?thesis by (simp add: final_bankroll_def)
qed

theorem run_backtest_without_qualifying_race_witness:
  "\<exists>perf. run_backtest example_float_text example_rng [example_race] [example_outsider]
             StrategyRules_default StakeManagement_default 100000 = Inr ([], perf) \<and>
          StrategyPerformance.total_bets perf = 0 \<and> win_rate perf = 0 \<and>
          StrategyPerformance.roi perf = 0 \<and> max_drawdown perf = 0 \<and>
          sharpe_ratio perf = 0 \<and> daily_performance perf = [] \<and>
          final_bankroll 100000 perf = 100000"
proof -
  from run_backtest_without_qualifying_race [OF example_outsider_fails,
      of example_rng StakeManagement_default 100000]
  obtain perf where
    "run_backtest example_float_text example_rng [example_race] [example_outsider]
       StrategyRules_default StakeManagement_default 100000 = Inr ([], perf)"
    "StrategyPerformance.total_bets perf = 0" "win_rate perf = 0"
    "StrategyPerformance.roi perf = 0" "max_drawdown perf = 0"
    "sharpe_ratio perf = 0" "daily_performance perf = []"
    "final_bankroll 100000 perf = 100000"
    by (elim exE conjE)
  then show ?thesis by (intro exI [of _ perf] conjI)
qed

text \<open>The same holds of every run that returns no bets.\<close>

lemma backtest_race_bets:
  fixes rc :: Race
  assumes "backtest_race ft rng rules sm rr rc st = Inr st'"
  shows "st' = st \<or> (\<exists>b. loop_bets st' = loop_bets st @ [b])"
  using assms
  by (auto simp: backtest_race_def Let_def split: option.splits list.splits sum.splits)

lemma backtest_loop_no_bets:
  assumes "for_each (backtest_race ft rng rules sm rr) races st = Inr st'" "loop_bets st' = []"
  shows "st' = st"
  using assms
proof (induction races arbitrary: st)
  case Nil
  then show ?case by simp
next
  case (Cons rc races)
  from Cons.prems(1) obtain s1 where
    s1: "backtest_race ft rng rules sm rr rc st = Inr s1" and
    rest: "for_each (backtest_race ft rng rules sm rr) races s1 = Inr st'"
    by (auto split: sum.splits)
  from Cons.IH [OF rest Cons.prems(2)] have "st' = s1" .
  with backtest_race_bets [OF s1] Cons.prems(2) show ?case by auto
qed

lemma run_backtest_no_bets:
  assumes "run_backtest ft rng races runners rules sm initial = Inr ([], perf)"
  shows "perf = \<lparr>strategy_id = ''backtest'', total_bets = 0, won_bets = 0, lost_bets = 0,
                 win_rate = 0, total_turnover = 0, total_liability = 0,
                 total_profit_loss = 0, roi = 0, max_drawdown = 0, sharpe_ratio = 0,
                 daily_performance = []\<rparr>"
proof -
  let ?st0 = "\<lparr>loop_bets = [], loop_daily_results = [], loop_bankroll = initial, loop_draws = 0\<rparr>"
  from assms obtain st where
    loop: "for_each (backtest_race ft rng rules sm (group_runners runners)) races ?st0 = Inr st" and
    pm: "performance_metrics initial st = Inr ([], perf)"
    by (auto simp: run_backtest_def split: sum.splits)
  from pm have "loop_bets st = []"
    by (auto simp: performance_metrics_def Let_def split: sum.splits if_splits)
  from backtest_loop_no_bets [OF loop this] have "st = ?st0" .
  with pm show ?thesis by (simp add: performance_metrics_no_bets)
qed

section \<open>Daily performance\<close>

lemma for_each_invariant:
  assumes "\<And>x s s'. x \<in> set xs \<Longrightarrow> I s \<Longrightarrow> body x s = Inr s' \<Longrightarrow> I s'"
    and "I s" and "for_each body xs s = Inr s'"
  shows "I s'"
  using assms
proof (induction xs arbitrary: s)
  case Nil
  then show ?case by simp
next
  case (Cons x xs)
  from Cons.prems(3) obtain s1 where s1: "body x s = Inr s1" and rest: "for_each body xs s1 = Inr s'"
    by (auto split: sum.splits)
  from Cons.prems(1) [of x s s1] Cons.prems(2) s1 have "I s1" by simp
  with rest show ?case by (intro Cons.IH [of s1]) (auto intro: Cons.prems(1))
qed

lemma track_daily_results_distinct:
  assumes "distinct (map fst dr)"
  shows "distinct (map fst (track_daily_results d s l pl res dr))"
  using assms
  by (auto simp: track_daily_results_def Let_def distinct_update split: option.splits)

lemma backtest_race_distinct:
  fixes rc :: Race
  assumes "distinct (map fst (loop_daily_results st))"
    "backtest_race ft rng rules sm rr rc st = Inr st'"
  shows "distinct (map fst (loop_daily_results st'))"
  using assms
  by (auto simp: backtest_race_def Let_def track_daily_results_distinct
      split: option.splits list.splits sum.splits)

lemma daily_performance_loop_chain:
  assumes "daily_performance_loop dr rb ds = Inr dps"
  shows "map date dps = ds \<and>
         (dps \<noteq> [] \<longrightarrow> starting_bank (hd dps) = rb) \<and>
         successively (\<lambda>a b. ending_bank a = starting_bank b) dps \<and>
         (\<forall>d \<in> set dps. ending_bank d = starting_bank d + DailyPerformance.profit_loss d)"
  using assms
proof (induction ds arbitrary: rb dps)
  case Nil
  then show ?case by simp
next
  case (Cons d ds)
  from Cons.prems obtain entry day_roi rest where
    entry: "map_of dr d = Some entry" and
    rest: "daily_performance_loop dr (rb + day_totals.profit_loss entry) ds = Inr rest" and
    dps: "dps = \<lparr>date = d, total_bets = bets entry, won_bets = won entry,
                 lost_bets = lost entry, turnover = day_totals.turnover entry,
                 liability = day_totals.liability entry,
                 profit_loss = day_totals.profit_loss entry, roi = day_roi,
                 starting_bank = rb,
                 ending_bank = rb + day_totals.profit_loss entry\<rparr> # rest"
    by (auto simp: Let_def split: option.splits sum.splits)
  from Cons.IH [OF rest] dps show ?case
    by (cases rest) (auto simp: successively_Cons)
qed

lemma performance_metrics_daily:
  assumes "performance_metrics initial st = Inr (bs, perf)"
  shows "daily_performance_loop (loop_daily_results st) initial
           (sort (map fst (loop_daily_results st))) = Inr (daily_performance perf)"
  using assms by (auto simp: performance_metrics_def Let_def split: sum.splits if_splits)

text \<open>
  C8. In the performance a backtest returns, the dates of \<^verbatim>\<open>daily_performance\<close> are
  strictly ascending, the first entry starts at the initial bankroll, each entry ends
  where the next one starts, and each entry ends at its start plus its profit or
  loss.
\<close>

theorem daily_performance_ordered_and_chained:
  assumes "run_backtest ft rng races runners rules sm initial = Inr (bs, perf)"
  shows "sorted_wrt (<) (map date (daily_performance perf)) \<and>
         (daily_performance perf \<noteq> [] \<longrightarrow>
            starting_bank (hd (daily_performance perf)) = initial) \<and>
         (\<forall>i. Suc i < length (daily_performance perf) \<longrightarrow>
            ending_bank (daily_performance perf ! i) =
            starting_bank (daily_performance perf ! Suc i)) \<and>
         (\<forall>d \<in> set (daily_performance perf).
            ending_bank d = starting_bank d + DailyPerformance.profit_loss d)"
proof -
  let ?st0 = "\<lparr>loop_bets = [], loop_daily_results = [], loop_bankroll = initial, loop_draws = 0\<rparr>"
  from assms obtain st where
    loop: "for_each (backtest_race ft rng rules sm (group_runners runners)) races ?st0 = Inr st" and
    pm: "performance_metrics initial st = Inr (bs, perf)"
    by (auto simp: run_backtest_def split: sum.splits)
  have dist: "distinct (map fst (loop_daily_results st))"
    by (rule for_each_invariant [where I = "\<lambda>s. distinct (map fst (loop_daily_results s))", OF _ _ loop])
      (auto intro: backtest_race_distinct)
  from pm have daily:
    "daily_performance_loop (loop_daily_results st) initial
       (sort (map fst (loop_daily_results st))) = Inr (daily_performance perf)"
    by (auto simp: performance_metrics_def Let_def split: sum.splits if_splits)
  note ch = daily_performance_loop_chain [OF daily]
  from ch have "map date (daily_performance perf) = sort (map fst (loop_daily_results st))"
    by simp
  with dist have 1: "sorted_wrt (<) (map date (daily_performance perf))"
    by (simp add: strict_sorted_iff)
  from ch have 2: "daily_performance perf \<noteq> [] \<longrightarrow>
      starting_bank (hd (daily_performance perf)) = initial"
    by (rule conjunct1 [OF conjunct2])
  from ch have "successively (\<lambda>a b. ending_bank a = starting_bank b) (daily_performance perf)"
    by (rule conjunct1 [OF conjunct2 [OF conjunct2]])
  then have 3: "\<forall>i. Suc i < length (daily_performance perf) \<longrightarrow>
      ending_bank (daily_performance perf ! i) = starting_bank (daily_performance perf ! Suc i)"
    by (simp only: successively_conv_nth)
  from ch have 4: "\<forall>d \<in> set (daily_performance perf).
      ending_bank d = starting_bank d + DailyPerformance.profit_loss d"
    by (rule conjunct2 [OF conjunct2 [OF conjunct2]])
  from 1 2 3 4 show ?thesis by (intro conjI)
qed

section \<open>Which errors a backtest can raise\<close>

lemma equity_curve_from_returns:
  assumes "\<forall>b \<in> set bs. Bet.profit_loss b \<noteq> None"
  shows "\<exists>curve. equity_curve_from running_total bs = Inr curve"
  using assms
proof (induction bs arbitrary: running_total)
  case Nil
  then show ?case by simp
next
  case (Cons b bs)
  from Cons.prems obtain pl where pl: "Bet.profit_loss b = Some pl" by auto
  from Cons.prems have "\<exists>curve. equity_curve_from (running_total + pl) bs = Inr curve"
    by (intro Cons.IH) simp
  with pl show ?case by auto
qed

lemma bet_returns_returns:
  assumes "\<forall>b \<in> set bs. Bet.profit_loss b \<noteq> None"
  shows "\<exists>rets. bet_returns bs = Inr rets"
  using assms
proof (induction bs)
  case Nil
  then show ?case by simp
next
  case (Cons b bs)
  from Cons.prems obtain pl where pl: "Bet.profit_loss b = Some pl" by auto
  from Cons have "\<exists>rets. bet_returns bs = Inr rets" by simp
  with pl show ?case by (auto simp: py_truediv_def)
qed

lemma calculate_sharpe_ratio_returns:
  assumes "\<forall>b \<in> set bs. Bet.profit_loss b \<noteq> None"
  shows "\<exists>sharpe. calculate_sharpe_ratio bs = Inr sharpe"
proof -
  from bet_returns_returns [OF assms] obtain rets where "bet_returns bs = Inr rets" by blast
  then show ?thesis by (simp add: calculate_sharpe_ratio_def Let_def)
qed

lemma max_drawdown_loop_returns:
  assumes "0 < peak"
  shows "\<exists>m. max_drawdown_loop max_dd peak vs = Inr m"
  using assms
proof (induction vs arbitrary: max_dd peak)
  case Nil
  then show ?case by simp
next
  case (Cons v vs)
  let ?peak = "if v > peak then v else peak"
  from Cons.prems have pos: "0 < ?peak" by simp
  then have "?peak \<noteq> 0" by simp
  then have q: "py_truediv (?peak - v) ?peak = Inr ((?peak - v) / ?peak)"
    by (simp only: py_truediv_def if_False)
  from Cons.IH [OF pos] q show ?case
    by (simp only: max_drawdown_loop.simps Let_def sum.case)
qed

lemma calculate_max_drawdown_returns:
  assumes "0 < initial"
  shows "\<exists>m. calculate_max_drawdown (initial # curve) = Inr m"
proof -
  from max_drawdown_loop_returns [OF assms] obtain m
    where "max_drawdown_loop 0 initial (initial # curve) = Inr m" by blast
  then show ?thesis by (simp add: calculate_max_drawdown_def)
qed

lemma daily_performance_loop_returns:
  assumes "set ds \<subseteq> fst ` set dr"
  shows "\<exists>dps. daily_performance_loop dr rb ds = Inr dps"
  using assms
proof (induction ds arbitrary: rb)
  case Nil
  then show ?case by simp
next
  case (Cons d ds)
  from Cons.prems have "map_of dr d \<noteq> None" by (simp add: map_of_eq_None_iff)
  then obtain entry where entry: "map_of dr d = Some entry" by auto
  from Cons.prems have "\<exists>dps. daily_performance_loop dr (rb + day_totals.profit_loss entry) ds = Inr dps"
    by (intro Cons.IH) simp
  with entry show ?case by (auto simp: Let_def py_truediv_def)
qed

lemma performance_metrics_returns:
  assumes "\<forall>b \<in> set (loop_bets st). Bet.profit_loss b \<noteq> None" "0 < initial"
  shows "\<exists>perf. performance_metrics initial st = Inr (loop_bets st, perf)"
proof -
  from equity_curve_from_returns [OF assms(1)] obtain curve
    where c: "equity_curve_from initial (loop_bets st) = Inr curve" by blast
  from calculate_max_drawdown_returns [OF assms(2)] obtain m
    where m: "calculate_max_drawdown (initial # curve) = Inr m" by blast
  have "set (sort (map fst (loop_daily_results st))) \<subseteq> fst ` set (loop_daily_results st)"
    by simp
  from daily_performance_loop_returns [OF this] obtain dps
    where d: "daily_performance_loop (loop_daily_results st) initial
                (sort (map fst (loop_daily_results st))) = Inr dps" by blast
  from calculate_sharpe_ratio_returns [OF assms(1)] obtain sharpe
    where s: "calculate_sharpe_ratio (loop_bets st) = Inr sharpe" by blast
  show ?thesis
    unfolding performance_metrics_def Let_def c m d s sum.case
    by (auto simp: py_truediv_def)
qed

lemma backtest_race_settled:
  fixes rc :: Race
  assumes "\<forall>b \<in> set (loop_bets st). Bet.profit_loss b \<noteq> None"
    "backtest_race ft rng rules sm rr rc st = Inr st'"
  shows "\<forall>b \<in> set (loop_bets st'). Bet.profit_loss b \<noteq> None"
  using assms
  by (auto simp: backtest_race_def Let_def split: option.splits list.splits sum.splits)

lemma backtest_loop_settled:
  assumes "for_each (backtest_race ft rng rules sm rr) races st = Inr st'"
    "\<forall>b \<in> set (loop_bets st). Bet.profit_loss b \<noteq> None"
  shows "\<forall>b \<in> set (loop_bets st'). Bet.profit_loss b \<noteq> None"
proof (rule for_each_invariant
        [where I = "\<lambda>s. \<forall>b \<in> set (loop_bets s). Bet.profit_loss b \<noteq> None", OF _ assms(2) assms(1)])
  fix rc :: Race and s s'
  assume "\<forall>b \<in> set (loop_bets s). Bet.profit_loss b \<noteq> None"
    "backtest_race ft rng rules sm rr rc s = Inr s'"
  then show "\<forall>b \<in> set (loop_bets s'). Bet.profit_loss b \<noteq> None"
    by (rule backtest_race_settled)
qed


section \<open>A run over two days\<close>

lemma example_step_winter:
  assumes "loop_bankroll st = 100000" "loop_draws st = 0"
  shows "\<exists>st'. backtest_race ft example_rng StrategyRules_default StakeManagement_default
           (group_runners [example_runner]) example_winter_race st = Inr st' \<and>
         loop_bankroll st' = 10041055 / 100 \<and> loop_draws st' = Suc 0 \<and>
         loop_daily_results st' =
           track_daily_results (race_date example_winter_race) (41055 / 100) (82110 / 100)
             (41055 / 100) WON (loop_daily_results st)"
  by (simp add: backtest_race_def example_winter_grouped evaluate_race_def
      example_winter_race_qualifies example_winter_race_multiplier example_runner_fields
      assms example_stakes example_draws example_winter_race_scheduled
      QualifyingRace_suggested calculate_profit_loss_def Let_def)

lemma example_step_race:
  assumes "loop_bankroll st = 10041055 / 100" "loop_draws st = Suc 0"
  shows "\<exists>st'. backtest_race ft example_rng StrategyRules_default StakeManagement_default
           (group_runners [example_runner]) example_race st = Inr st' \<and>
         loop_bankroll st' = 9940644 / 100 \<and> loop_draws st' = Suc (Suc 0) \<and>
         loop_daily_results st' =
           track_daily_results (race_date example_race) (50205 / 100) (100411 / 100)
             (- (100411 / 100)) LOST (loop_daily_results st)"
  by (simp add: backtest_race_def example_grouped evaluate_race_def
      example_race_qualifies_any example_race_multiplier example_runner_fields
      assms example_stakes example_draws example_race_scheduled'
      QualifyingRace_suggested calculate_profit_loss_def Let_def)

lemma example_loop:
  "\<exists>st. for_each (backtest_race ft example_rng StrategyRules_default StakeManagement_default
                    (group_runners [example_runner]))
          [example_winter_race, example_race]
          \<lparr>loop_bets = [], loop_daily_results = [], loop_bankroll = 100000, loop_draws = 0\<rparr> =
        Inr st \<and>
        loop_daily_results st =
          [(''2024-12-26'', \<lparr>bets = 1, won = 1, lost = 0, turnover = 41055 / 100,
                              liability = 82110 / 100, profit_loss = 41055 / 100\<rparr>),
           (''2024-06-15'', \<lparr>bets = 1, won = 0, lost = 1, turnover = 50205 / 100,
                              liability = 100411 / 100, profit_loss = - (100411 / 100)\<rparr>)]"
proof -
  let ?st0 = "\<lparr>loop_bets = [], loop_daily_results = [], loop_bankroll = 100000, loop_draws = 0\<rparr>"
  have "loop_bankroll ?st0 = 100000" "loop_draws ?st0 = 0" by simp_all
  from example_step_winter [OF this, of ft] obtain st1 where
    s1: "backtest_race ft example_rng StrategyRules_default StakeManagement_default
           (group_runners [example_runner]) example_winter_race ?st0 = Inr st1" and
    b1: "loop_bankroll st1 = 10041055 / 100" "loop_draws st1 = Suc 0" and
    d1: "loop_daily_results st1 =
           track_daily_results (race_date example_winter_race) (41055 / 100) (82110 / 100)
             (41055 / 100) WON (loop_daily_results ?st0)"
    by (elim exE conjE)
  from example_step_race [OF b1, of ft] obtain st2 where
    s2: "backtest_race ft example_rng StrategyRules_default StakeManagement_default
           (group_runners [example_runner]) example_race st1 = Inr st2" and
    d2: "loop_daily_results st2 =
           track_daily_results (race_date example_race) (50205 / 100) (100411 / 100)
             (- (100411 / 100)) LOST (loop_daily_results st1)"
    by (elim exE conjE)
  from d1 d2 have "loop_daily_results st2 =
          [(''2024-12-26'', \<lparr>bets = 1, won = 1, lost = 0, turnover = 41055 / 100,
                              liability = 82110 / 100, profit_loss = 41055 / 100\<rparr>),
           (''2024-06-15'', \<lparr>bets = 1, won = 0, lost = 1, turnover = 50205 / 100,
                              liability = 100411 / 100, profit_loss = - (100411 / 100)\<rparr>)]"
    by (simp add: track_daily_results_def example_winter_race_def example_race_def)
  with s1 s2 show ?thesis by simp
qed

lemma example_run:
  "\<exists>bs perf.
     run_backtest ft example_rng [example_winter_race, example_race] [example_runner]
       StrategyRules_default StakeManagement_default 100000 = Inr (bs, perf) \<and>
     daily_performance perf =
       [\<lparr>date = ''2024-06-15'', total_bets = 1, won_bets = 0, lost_bets = 1,
         turnover = 50205 / 100, liability = 100411 / 100, profit_loss = - (100411 / 100),
         roi = - (100411 / 100) / (50205 / 100) * 100,
         starting_bank = 100000, ending_bank = 9899589 / 100\<rparr>,
        \<lparr>date = ''2024-12-26'', total_bets = 1, won_bets = 1, lost_bets = 0,
         turnover = 41055 / 100, liability = 82110 / 100, profit_loss = 41055 / 100,
         roi = 100, starting_bank = 9899589 / 100, ending_bank = 9940644 / 100\<rparr>]"
proof -
  let ?st0 = "\<lparr>loop_bets = [], loop_daily_results = [], loop_bankroll = 100000, loop_draws = 0\<rparr>"
  from example_loop [of ft] obtain st where
    loop: "for_each (backtest_race ft example_rng StrategyRules_default StakeManagement_default
                    (group_runners [example_runner]))
          [example_winter_race, example_race] ?st0 = Inr st" and
    dr: "loop_daily_results st =
          [(''2024-12-26'', \<lparr>bets = 1, won = 1, lost = 0, turnover = 41055 / 100,
                              liability = 82110 / 100, profit_loss = 41055 / 100\<rparr>),
           (''2024-06-15'', \<lparr>bets = 1, won = 0, lost = 1, turnover = 50205 / 100,
                              liability = 100411 / 100, profit_loss = - (100411 / 100)\<rparr>)]"
    by (elim exE conjE)
  have "\<forall>b \<in> set (loop_bets st). Bet.profit_loss b \<noteq> None"
    by (rule backtest_loop_settled [OF loop]) simp
  from performance_metrics_returns [OF this, of 100000] obtain perf
    where pm: "performance_metrics 100000 st = Inr (loop_bets st, perf)" by auto
  from performance_metrics_daily [OF pm] dr
  have "daily_performance perf =
       [\<lparr>date = ''2024-06-15'', total_bets = 1, won_bets = 0, lost_bets = 1,
         turnover = 50205 / 100, liability = 100411 / 100, profit_loss = - (100411 / 100),
         roi = - (100411 / 100) / (50205 / 100) * 100,
         starting_bank = 100000, ending_bank = 9899589 / 100\<rparr>,
        \<lparr>date = ''2024-12-26'', total_bets = 1, won_bets = 1, lost_bets = 0,
         turnover = 41055 / 100, liability = 82110 / 100, profit_loss = 41055 / 100,
         roi = 100, starting_bank = 9899589 / 100, ending_bank = 9940644 / 100\<rparr>]"
    by (simp add: py_truediv_def Let_def)
  with loop pm show ?thesis by (simp add: run_backtest_def)
qed

theorem daily_performance_ordered_and_chained_witness:
  "\<exists>bs perf.
     run_backtest example_float_text example_rng [example_winter_race, example_race]
       [example_runner] StrategyRules_default StakeManagement_default 100000 = Inr (bs, perf) \<and>
     map date (daily_performance perf) = [''2024-06-15'', ''2024-12-26''] \<and>
     map starting_bank (daily_performance perf) = [100000, 9899589 / 100] \<and>
     map ending_bank (daily_performance perf) = [9899589 / 100, 9940644 / 100] \<and>
     sorted_wrt (<) (map date (daily_performance perf)) \<and>
     ending_bank (daily_performance perf ! 0) = starting_bank (daily_performance perf ! Suc 0)"
proof -
  from example_run [of example_float_text] obtain bs perf where
    run: "run_backtest example_float_text example_rng [example_winter_race, example_race]
       [example_runner] StrategyRules_default StakeManagement_default 100000 = Inr (bs, perf)" and
    dp: "daily_performance perf =
       [\<lparr>date = ''2024-06-15'', total_bets = 1, won_bets = 0, lost_bets = 1,
         turnover = 50205 / 100, liability = 100411 / 100, profit_loss = - (100411 / 100),
         roi = - (100411 / 100) / (50205 / 100) * 100,
         starting_bank = 100000, ending_bank = 9899589 / 100\<rparr>,
        \<lparr>date = ''2024-12-26'', total_bets = 1, won_bets = 1, lost_bets = 0,
         turnover = 41055 / 100, liability = 82110 / 100, profit_loss = 41055 / 100,
         roi = 100, starting_bank = 9899589 / 100, ending_bank = 9940644 / 100\<rparr>]"
    by (elim exE conjE)
  note inst = daily_performance_ordered_and_chained [OF run]
  from inst have s: "sorted_wrt (<) (map date (daily_performance perf))"
    by (rule conjunct1)
  from inst have "\<forall>i. Suc i < length (daily_performance perf) \<longrightarrow>
            ending_bank (daily_performance perf ! i) =
            starting_bank (daily_performance perf ! Suc i)"
    by (rule conjunct1 [OF conjunct2 [OF conjunct2]])
  moreover from dp have "Suc 0 < length (daily_performance perf)" by simp
  ultimately have c: "ending_bank (daily_performance perf ! 0) =
      starting_bank (daily_performance perf ! Suc 0)" by blast
  from dp have m: "map date (daily_performance perf) = [''2024-06-15'', ''2024-12-26'']"
    "map starting_bank (daily_performance perf) = [100000, 9899589 / 100]"
    "map ending_bank (daily_performance perf) = [9899589 / 100, 9940644 / 100]"
    by simp_all
  show ?thesis
    by (rule exI [of _ bs], rule exI [of _ perf]) (intro conjI run m s c)
qed

section \<open>A zero peak in the equity curve\<close>

















end
